theory Spec2Isabelle
  imports Main "HOL-Library.Sublist"
begin

section \<open>Python values: strings, bytes and exceptions\<close>

text \<open>
  A Python \<open>str\<close> is a sequence of Unicode code points and is modelled as a list of
  natural numbers; \<open>bytes\<close> is a list of 8-bit characters. A string literal of the source
  is written \<open>S ''...''\<close>.
\<close>

type_synonym pystr = "nat list"
type_synonym bytes = "char list"

abbreviation S :: "string \<Rightarrow> pystr" where
  "S cs \<equiv> map of_char cs"

text \<open>
  The exceptions the modelled code raises. \<open>is_ValueError\<close> is Python's subclass
  relation to \<open>ValueError\<close>: \<open>binascii.Error\<close>, \<open>UnicodeDecodeError\<close>,
  \<open>UnicodeEncodeError\<close> and \<open>json.JSONDecodeError\<close> are subclasses of it, and so is
  the exceptions of \<open>cmit.requests.exceptions\<close> (\<open>InvalidSchema\<close>, \<open>MissingSchema\<close> and
  its \<open>InvalidSocketPath\<close>, here \<open>RequestsInvalidSocketPath\<close>). \<open>InvalidSocketPath\<close> is the
  exception of \<open>cmit.client\<close>, which is not a \<open>ValueError\<close>.
\<close>

datatype error =
    ValueError
  | KeyError
  | IndexError
  | TypeError
  | NameError
  | AttributeError
  | OSError
  | BinasciiError
  | UnicodeDecodeError
  | UnicodeEncodeError
  | JSONDecodeError
  | RecursionError
  | OverflowError
  | InvalidSchema
  | InvalidSocketPath
  | RequestsInvalidSocketPath
  | MissingSchema
  | UnknownProtocol pystr
  | BadStatusLine
  | RemoteDisconnected
  | LineTooLong string
  | CannotSendRequest
  | ResponseNotReady
  | ImproperConnectionState

fun is_ValueError :: "error \<Rightarrow> bool" where
  "is_ValueError ValueError = True"
| "is_ValueError BinasciiError = True"
| "is_ValueError UnicodeDecodeError = True"
| "is_ValueError UnicodeEncodeError = True"
| "is_ValueError JSONDecodeError = True"
| "is_ValueError InvalidSchema = True"
| "is_ValueError RequestsInvalidSocketPath = True"
| "is_ValueError MissingSchema = True"
| "is_ValueError _ = False"

section \<open>Session mount table (cmit/requests/sessions.py)\<close>

text \<open>
  \<open>Session.adapters\<close> is an \<open>OrderedDict\<close>: an association list in insertion order.
  \<open>od_set\<close> is \<open>d[k] = v\<close> (an existing key keeps its position, a new key is appended),
  \<open>od_pop\<close> is \<open>d.pop(k)\<close>, which raises \<open>KeyError\<close> for a missing key.
\<close>

type_synonym 'a odict = "(pystr \<times> 'a) list"

fun od_set :: "'k \<Rightarrow> 'v \<Rightarrow> ('k \<times> 'v) list \<Rightarrow> ('k \<times> 'v) list" where
  "od_set k v [] = [(k, v)]"
| "od_set k v ((k', v') # d) = (if k' = k then (k, v) # d else (k', v') # od_set k v d)"

fun od_del :: "'k \<Rightarrow> ('k \<times> 'v) list \<Rightarrow> ('k \<times> 'v) list" where
  "od_del k [] = []"
| "od_del k ((k', v') # d) = (if k' = k then od_del k d else (k', v') # od_del k d)"

definition od_pop :: "'k \<Rightarrow> ('k \<times> 'v) list \<Rightarrow> error + ('v \<times> ('k \<times> 'v) list)" where
  "od_pop k d = (case map_of d k of None \<Rightarrow> Inl KeyError | Some v \<Rightarrow> Inr (v, od_del k d))"

text \<open>The loop \<open>for k in keys_to_move: self.adapters[k] = self.adapters.pop(k)\<close>.\<close>

fun move_keys :: "pystr list \<Rightarrow> 'a odict \<Rightarrow> error + 'a odict" where
  "move_keys [] d = Inr d"
| "move_keys (k # ks) d =
     (case od_pop k d of
        Inl e \<Rightarrow> Inl e
      | Inr (v, d') \<Rightarrow> move_keys ks (od_set k v d'))"

definition mount :: "pystr \<Rightarrow> 'a \<Rightarrow> 'a odict \<Rightarrow> error + 'a odict" where
  "mount pfx adapter adapters =
     (let adapters1 = od_set pfx adapter adapters;
          keys_to_move = filter (\<lambda>k. length k < length pfx) (map fst adapters1)
      in move_keys keys_to_move adapters1)"

text \<open>A sequence of \<open>mount\<close> calls on one session; the first exception ends it.\<close>

fun mount_all :: "(pystr \<times> 'a) list \<Rightarrow> 'a odict \<Rightarrow> error + 'a odict" where
  "mount_all [] d = Inr d"
| "mount_all ((p, a) # ms) d =
     (case mount p a d of Inl e \<Rightarrow> Inl e | Inr d' \<Rightarrow> mount_all ms d')"

text \<open>
  \<open>Session.get_adapter\<close>: the first entry whose lower-cased prefix starts the lower-cased
  locator. \<open>str.lower\<close> is Unicode's case mapping, which is not part of the repository;
  it is the parameter \<open>lower\<close>.
\<close>

fun first_match :: "(pystr \<Rightarrow> pystr) \<Rightarrow> pystr \<Rightarrow> 'a odict \<Rightarrow> (pystr \<times> 'a) option" where
  "first_match lower uri [] = None"
| "first_match lower uri ((p, a) # d) =
     (if prefix (lower p) (lower uri) then Some (p, a) else first_match lower uri d)"

definition get_adapter :: "(pystr \<Rightarrow> pystr) \<Rightarrow> 'a odict \<Rightarrow> pystr \<Rightarrow> error + 'a" where
  "get_adapter lower adapters uri =
     (case first_match lower uri adapters of
        Some (p, a) \<Rightarrow> Inr a
      | None \<Rightarrow> Inl InvalidSchema)"

text \<open>\<open>str.lower\<close> on ASCII letters, with which the parameter agrees on ASCII strings.\<close>

definition lower_ascii :: "nat \<Rightarrow> nat" where
  "lower_ascii c = (if 65 \<le> c \<and> c \<le> 90 then c + 32 else c)"

definition ascii_lowering :: "(pystr \<Rightarrow> pystr) \<Rightarrow> bool" where
  "ascii_lowering lower = (\<forall>s. list_all (\<lambda>c. c < 128) s \<longrightarrow> lower s = map lower_ascii s)"

text \<open>The table is ordered when no entry is followed by one with a longer prefix.\<close>

definition longer_first :: "'a odict \<Rightarrow> bool" where
  "longer_first d = sorted_wrt (\<lambda>x y. length (fst y) \<le> length (fst x)) d"

section \<open>Text encodings and dynamic values (Python standard library)\<close>

text \<open>Exceptions propagate: \<open>ebind r f\<close> continues with \<open>f\<close> unless \<open>r\<close> raised.\<close>

definition ebind :: "error + 'a \<Rightarrow> ('a \<Rightarrow> error + 'b) \<Rightarrow> error + 'b" where
  "ebind r f = (case r of Inl e \<Rightarrow> Inl e | Inr x \<Rightarrow> f x)"

text \<open>\<open>str.encode('latin-1')\<close> and \<open>str(b, 'latin-1')\<close>.\<close>

definition latin1_encode :: "pystr \<Rightarrow> error + bytes" where
  "latin1_encode s =
     (if list_all (\<lambda>c. c < 256) s then Inr (map char_of s) else Inl UnicodeEncodeError)"

definition latin1_decode :: "bytes \<Rightarrow> pystr" where
  "latin1_decode b = map of_char b"

text \<open>
  \<open>bytes.decode('utf-8')\<close> with the default strict error handler. The decoder takes a lead
  byte with its continuation bytes, assembles the code point, and refuses truncated
  sequences, stray continuation bytes, overlong forms, surrogates and values above
  \<open>0x10FFFF\<close>.
\<close>

definition cont :: "nat \<Rightarrow> bool" where
  "cont b = (128 \<le> b \<and> b < 192)"

fun utf8_points :: "nat list \<Rightarrow> error + pystr" where
  "utf8_points [] = Inr []"
| "utf8_points (b0 # bs) =
     (if b0 < 128 then ebind (utf8_points bs) (\<lambda>r. Inr (b0 # r))
      else if 194 \<le> b0 \<and> b0 < 224 then
        (case bs of
           b1 # r1 \<Rightarrow>
             if cont b1
             then ebind (utf8_points r1) (\<lambda>r. Inr (((b0 - 192) * 64 + (b1 - 128)) # r))
             else Inl UnicodeDecodeError
         | _ \<Rightarrow> Inl UnicodeDecodeError)
      else if 224 \<le> b0 \<and> b0 < 240 then
        (case bs of
           b1 # b2 # r2 \<Rightarrow>
             if cont b1 \<and> cont b2 \<and> (if b0 = 224 then 160 \<le> b1 else True)
                \<and> (if b0 = 237 then b1 < 160 else True)
             then ebind (utf8_points r2)
                    (\<lambda>r. Inr (((b0 - 224) * 4096 + (b1 - 128) * 64 + (b2 - 128)) # r))
             else Inl UnicodeDecodeError
         | _ \<Rightarrow> Inl UnicodeDecodeError)
      else if 240 \<le> b0 \<and> b0 < 245 then
        (case bs of
           b1 # b2 # b3 # r3 \<Rightarrow>
             if cont b1 \<and> cont b2 \<and> cont b3 \<and> (if b0 = 240 then 144 \<le> b1 else True)
                \<and> (if b0 = 244 then b1 < 144 else True)
             then ebind (utf8_points r3)
                    (\<lambda>r. Inr (((b0 - 240) * 262144 + (b1 - 128) * 4096
                                 + (b2 - 128) * 64 + (b3 - 128)) # r))
             else Inl UnicodeDecodeError
         | _ \<Rightarrow> Inl UnicodeDecodeError)
      else Inl UnicodeDecodeError)"

definition utf8_decode :: "bytes \<Rightarrow> error + pystr" where
  "utf8_decode b = utf8_points (map of_char b)"

text \<open>
  Well-formed UTF-8 as the Unicode Standard tabulates it (Table 3-7), by byte ranges
  alone: the specification \<open>utf8_decode\<close> is compared with.
\<close>

definition in_range :: "nat \<Rightarrow> nat \<Rightarrow> nat \<Rightarrow> bool" where
  "in_range b lo hi = (lo \<le> b \<and> b \<le> hi)"

fun well_formed_utf8 :: "nat list \<Rightarrow> bool" where
  "well_formed_utf8 [] = True"
| "well_formed_utf8 (b0 # bs) =
     (if in_range b0 0x00 0x7F then well_formed_utf8 bs
      else if in_range b0 0xC2 0xDF then
        (case bs of b1 # r \<Rightarrow> in_range b1 0x80 0xBF \<and> well_formed_utf8 r | _ \<Rightarrow> False)
      else if b0 = 0xE0 then
        (case bs of b1 # b2 # r \<Rightarrow>
           in_range b1 0xA0 0xBF \<and> in_range b2 0x80 0xBF \<and> well_formed_utf8 r | _ \<Rightarrow> False)
      else if in_range b0 0xE1 0xEC then
        (case bs of b1 # b2 # r \<Rightarrow>
           in_range b1 0x80 0xBF \<and> in_range b2 0x80 0xBF \<and> well_formed_utf8 r | _ \<Rightarrow> False)
      else if b0 = 0xED then
        (case bs of b1 # b2 # r \<Rightarrow>
           in_range b1 0x80 0x9F \<and> in_range b2 0x80 0xBF \<and> well_formed_utf8 r | _ \<Rightarrow> False)
      else if in_range b0 0xEE 0xEF then
        (case bs of b1 # b2 # r \<Rightarrow>
           in_range b1 0x80 0xBF \<and> in_range b2 0x80 0xBF \<and> well_formed_utf8 r | _ \<Rightarrow> False)
      else if b0 = 0xF0 then
        (case bs of b1 # b2 # b3 # r \<Rightarrow>
           in_range b1 0x90 0xBF \<and> in_range b2 0x80 0xBF \<and> in_range b3 0x80 0xBF
           \<and> well_formed_utf8 r | _ \<Rightarrow> False)
      else if in_range b0 0xF1 0xF3 then
        (case bs of b1 # b2 # b3 # r \<Rightarrow>
           in_range b1 0x80 0xBF \<and> in_range b2 0x80 0xBF \<and> in_range b3 0x80 0xBF
           \<and> well_formed_utf8 r | _ \<Rightarrow> False)
      else if b0 = 0xF4 then
        (case bs of b1 # b2 # b3 # r \<Rightarrow>
           in_range b1 0x80 0x8F \<and> in_range b2 0x80 0xBF \<and> in_range b3 0x80 0xBF
           \<and> well_formed_utf8 r | _ \<Rightarrow> False)
      else False)"

definition valid_utf8 :: "bytes \<Rightarrow> bool" where
  "valid_utf8 b = well_formed_utf8 (map of_char b)"


text \<open>
  Dynamically typed values: what \<open>json.loads\<close> returns and what the topic and payload
  arguments accept (\<open>str\<close>, \<open>bytes\<close>, a zero-argument producer, or a structured value).
  A dictionary is an association list in insertion order with \<open>str\<close> keys. A producer is
  represented by the value it returns. A \<open>float\<close> is represented by the literal that
  denotes it (its \<open>repr\<close>): floating-point arithmetic is not modelled.
\<close>

datatype pyval =
    PNone
  | PBool bool
  | PInt int
  | PFloat pystr
  | PStr pystr
  | PBytes bytes
  | PList "pyval list"
  | PDict "(pystr \<times> pyval) list"
  | PFun pyval

section \<open>JSON serialisation (\<open>json.dumps\<close> with its defaults)\<close>

function nat_digits :: "nat \<Rightarrow> pystr" where
  "nat_digits n = (if n < 10 then [48 + n] else nat_digits (n div 10) @ [48 + n mod 10])"
  by pat_completeness auto
termination
  by (relation "measure id") auto

definition int_repr :: "int \<Rightarrow> pystr" where
  "int_repr i = (if i < 0 then 45 # nat_digits (nat (- i)) else nat_digits (nat i))"

definition hex_digit :: "nat \<Rightarrow> nat" where
  "hex_digit d = (if d < 10 then 48 + d else 87 + d)"

definition hex4 :: "nat \<Rightarrow> pystr" where
  "hex4 n = [hex_digit (n div 4096 mod 16), hex_digit (n div 256 mod 16),
             hex_digit (n div 16 mod 16), hex_digit (n mod 16)]"

text \<open>
  \<open>ensure_ascii\<close> escaping: the quote (34) and the backslash (92) are escaped, the
  control characters 8, 9, 10, 12, 13 have short escapes, every other character outside
  \<open>' '..'~'\<close> becomes \<open>\uXXXX\<close>, as a surrogate pair from \<open>0x10000\<close> on.
\<close>

definition escape_char :: "nat \<Rightarrow> pystr" where
  "escape_char c =
     (if c = 34 then [92, 34]
      else if c = 92 then [92, 92]
      else if c = 10 then [92, 110]
      else if c = 13 then [92, 114]
      else if c = 9 then [92, 116]
      else if c = 12 then [92, 102]
      else if c = 8 then [92, 98]
      else if 32 \<le> c \<and> c \<le> 126 then [c]
      else if c < 65536 then [92, 117] @ hex4 c
      else [92, 117] @ hex4 (55296 + ((c - 65536) div 1024) mod 1024)
           @ [92, 117] @ hex4 (56320 + (c - 65536) mod 1024))"

definition quote :: "pystr \<Rightarrow> pystr" where
  "quote s = [34] @ concat (map escape_char s) @ [34]"

fun join :: "pystr \<Rightarrow> pystr list \<Rightarrow> pystr" where
  "join sep [] = []"
| "join sep [x] = x"
| "join sep (x # y # ys) = x @ sep @ join sep (y # ys)"

fun dumps :: "pyval \<Rightarrow> error + pystr"
  and dumps_list :: "pyval list \<Rightarrow> error + pystr list"
  and dumps_items :: "(pystr \<times> pyval) list \<Rightarrow> error + pystr list"
where
  "dumps PNone = Inr (S ''null'')"
| "dumps (PBool b) = Inr (if b then S ''true'' else S ''false'')"
| "dumps (PInt i) = Inr (int_repr i)"
| "dumps (PFloat f) = Inr f"
| "dumps (PStr s) = Inr (quote s)"
| "dumps (PBytes b) = Inl TypeError"
| "dumps (PFun v) = Inl TypeError"
| "dumps (PList xs) = ebind (dumps_list xs) (\<lambda>ps. Inr (S ''['' @ join (S '', '') ps @ S '']''))"
| "dumps (PDict kvs) = ebind (dumps_items kvs) (\<lambda>ps. Inr (S ''{'' @ join (S '', '') ps @ S ''}''))"
| "dumps_list [] = Inr []"
| "dumps_list (x # xs) =
     ebind (dumps x) (\<lambda>p. ebind (dumps_list xs) (\<lambda>ps. Inr (p # ps)))"
| "dumps_items [] = Inr []"
| "dumps_items ((k, v) # kvs) =
     ebind (dumps v) (\<lambda>p. ebind (dumps_items kvs) (\<lambda>ps. Inr ((quote k @ S '': '' @ p) # ps)))"

section \<open>JSON parsing (\<open>json.loads\<close> with its defaults)\<close>

definition json_ws :: "nat \<Rightarrow> bool" where
  "json_ws c = (c = 32 \<or> c = 9 \<or> c = 10 \<or> c = 13)"

definition skip_ws :: "pystr \<Rightarrow> pystr" where
  "skip_ws s = dropWhile json_ws s"

definition is_digit :: "nat \<Rightarrow> bool" where
  "is_digit c = (48 \<le> c \<and> c \<le> 57)"

definition hex_value :: "nat \<Rightarrow> nat option" where
  "hex_value c =
     (if 48 \<le> c \<and> c \<le> 57 then Some (c - 48)
      else if 97 \<le> c \<and> c \<le> 102 then Some (c - 87)
      else if 65 \<le> c \<and> c \<le> 70 then Some (c - 55)
      else None)"

definition hex4_value :: "nat \<Rightarrow> nat \<Rightarrow> nat \<Rightarrow> nat \<Rightarrow> nat option" where
  "hex4_value a b c d =
     (case (hex_value a, hex_value b, hex_value c, hex_value d) of
        (Some x, Some y, Some z, Some w) \<Rightarrow> Some (x * 4096 + y * 256 + z * 16 + w)
      | _ \<Rightarrow> None)"

definition unescape :: "nat \<Rightarrow> nat option" where
  "unescape e =
     (if e = 34 then Some 34
      else if e = 92 then Some 92
      else if e = 47 then Some 47
      else if e = 98 then Some 8
      else if e = 102 then Some 12
      else if e = 110 then Some 10
      else if e = 114 then Some 13
      else if e = 116 then Some 9
      else None)"

text \<open>
  \<open>scanstring\<close> reads a string body up to its closing quote (strict mode: a raw control
  character is refused). A high surrogate escape that is followed by a low surrogate
  escape is joined with it.
\<close>

fun scanstring :: "pystr \<Rightarrow> error + (pystr \<times> pystr)" where
  "scanstring [] = Inl JSONDecodeError"
| "scanstring (c # cs) =
     (if c = 34 then Inr ([], cs)
      else if c = 92 then
        (case cs of
           [] \<Rightarrow> Inl JSONDecodeError
         | e # r \<Rightarrow>
             if e = 117 then
               (case r of
                  h1 # h2 # h3 # h4 # r' \<Rightarrow>
                    (case hex4_value h1 h2 h3 h4 of
                       None \<Rightarrow> Inl JSONDecodeError
                     | Some uni \<Rightarrow>
                         if 55296 \<le> uni \<and> uni \<le> 56319 then
                           (case r' of
                              b # u # r'' \<Rightarrow>
                                if b = 92 \<and> u = 117 then
                                  (case r'' of
                                     g1 # g2 # g3 # g4 # r3 \<Rightarrow>
                                       (case hex4_value g1 g2 g3 g4 of
                                          None \<Rightarrow> Inl JSONDecodeError
                                        | Some uni2 \<Rightarrow>
                                            if 56320 \<le> uni2 \<and> uni2 \<le> 57343 then
                                              ebind (scanstring r3) (\<lambda>(t, rest).
                                                Inr ((65536 + (uni - 55296) * 1024 + (uni2 - 56320)) # t, rest))
                                            else ebind (scanstring r') (\<lambda>(t, rest). Inr (uni # t, rest)))
                                   | _ \<Rightarrow> Inl JSONDecodeError)
                                else ebind (scanstring r') (\<lambda>(t, rest). Inr (uni # t, rest))
                            | _ \<Rightarrow> ebind (scanstring r') (\<lambda>(t, rest). Inr (uni # t, rest)))
                         else ebind (scanstring r') (\<lambda>(t, rest). Inr (uni # t, rest)))
                | _ \<Rightarrow> Inl JSONDecodeError)
             else
               (case unescape e of
                  None \<Rightarrow> Inl JSONDecodeError
                | Some x \<Rightarrow> ebind (scanstring r) (\<lambda>(t, rest). Inr (x # t, rest))))
      else if c < 32 then Inl JSONDecodeError
      else ebind (scanstring cs) (\<lambda>(t, rest). Inr (c # t, rest)))"


text \<open>
  A number is read as the longest match of
  \<open>-?(0|[1-9][0-9]*)(\.[0-9]+)?([eE][-+]?[0-9]+)?\<close>: an \<open>int\<close> without fraction and
  exponent, a \<open>float\<close> otherwise.
\<close>

definition nat_of_digits :: "pystr \<Rightarrow> nat" where
  "nat_of_digits ds = foldl (\<lambda>a d. 10 * a + (d - 48)) 0 ds"

definition scan_frac :: "pystr \<Rightarrow> pystr \<times> pystr" where
  "scan_frac s =
     (case s of
        d # f \<Rightarrow>
          if d = 46 \<and> takeWhile is_digit f \<noteq> []
          then (46 # takeWhile is_digit f, dropWhile is_digit f) else ([], s)
      | [] \<Rightarrow> ([], s))"

definition scan_sign :: "pystr \<Rightarrow> pystr \<times> pystr" where
  "scan_sign s =
     (case s of
        g # y \<Rightarrow> if g = 43 \<or> g = 45 then ([g], y) else ([], s)
      | [] \<Rightarrow> ([], s))"

definition scan_exp :: "pystr \<Rightarrow> pystr \<times> pystr" where
  "scan_exp s =
     (case s of
        e # x \<Rightarrow>
          if (e = 101 \<or> e = 69) \<and> takeWhile is_digit (snd (scan_sign x)) \<noteq> []
          then (e # fst (scan_sign x) @ takeWhile is_digit (snd (scan_sign x)),
                dropWhile is_digit (snd (scan_sign x)))
          else ([], s)
      | [] \<Rightarrow> ([], s))"

definition scan_int :: "pystr \<Rightarrow> (pystr \<times> pystr) option" where
  "scan_int s =
     (case s of
        [] \<Rightarrow> None
      | d # r \<Rightarrow>
          if d = 48 then Some ([48], r)
          else if is_digit d then Some (d # takeWhile is_digit r, dropWhile is_digit r)
          else None)"

definition scan_number :: "pystr \<Rightarrow> (pyval \<times> pystr) option" where
  "scan_number s =
     (let (sign, s1) = (case s of c # r \<Rightarrow> if c = 45 then ([45], r) else ([], s) | [] \<Rightarrow> ([], s))
      in case scan_int s1 of
           None \<Rightarrow> None
         | Some (ip, r1) \<Rightarrow>
             let (frac, r2) = scan_frac r1; (ex, r3) = scan_exp r2
             in if frac = [] \<and> ex = []
                then Some (PInt (if sign = [] then int (nat_of_digits ip)
                                 else - int (nat_of_digits ip)), r3)
                else Some (PFloat (sign @ ip @ frac @ ex), r3))"

text \<open>\<open>dict(pairs)\<close>: a repeated key keeps its first position and its last value.\<close>

definition dict_of_pairs :: "(pystr \<times> pyval) list \<Rightarrow> (pystr \<times> pyval) list" where
  "dict_of_pairs ps = foldl (\<lambda>d kv. od_set (fst kv) (snd kv) d) [] ps"

text \<open>
  The scanner. Its first argument bounds the number of nested calls; \<open>json_loads\<close>
  supplies two calls for every character, which no text can use up (a nested call of
  \<open>scan_once\<close> comes after at least one consumed character, and \<open>scan_array\<close> calls
  \<open>scan_once\<close> on its own input). The interpreter's own recursion limit, which a text
  nested some thousand levels deep exceeds, is not modelled.
  \<open>scan_array\<close> starts at an element, \<open>scan_object\<close> right after the opening quote of a key.
\<close>

fun scan_once :: "nat \<Rightarrow> pystr \<Rightarrow> error + (pyval \<times> pystr)"
  and scan_array :: "nat \<Rightarrow> pystr \<Rightarrow> error + (pyval list \<times> pystr)"
  and scan_object :: "nat \<Rightarrow> pystr \<Rightarrow> error + ((pystr \<times> pyval) list \<times> pystr)"
where
  "scan_once 0 s = Inl RecursionError"
| "scan_once (Suc n) [] = Inl JSONDecodeError"
| "scan_once (Suc n) (c # cs) =
     (if c = 34 then ebind (scanstring cs) (\<lambda>(t, r). Inr (PStr t, r))
      else if c = 123 then
        (case skip_ws cs of
           [] \<Rightarrow> Inl JSONDecodeError
         | q # s2 \<Rightarrow>
             if q = 125 then Inr (PDict [], s2)
             else if q = 34
               then ebind (scan_object n s2) (\<lambda>(ps, r). Inr (PDict (dict_of_pairs ps), r))
             else Inl JSONDecodeError)
      else if c = 91 then
        (case skip_ws cs of
           [] \<Rightarrow> Inl JSONDecodeError
         | q # s2 \<Rightarrow>
             if q = 93 then Inr (PList [], s2)
             else ebind (scan_array n (q # s2)) (\<lambda>(vs, r). Inr (PList vs, r)))
      else if c = 110 \<and> prefix (S ''ull'') cs then Inr (PNone, drop 3 cs)
      else if c = 116 \<and> prefix (S ''rue'') cs then Inr (PBool True, drop 3 cs)
      else if c = 102 \<and> prefix (S ''alse'') cs then Inr (PBool False, drop 4 cs)
      else
        (case scan_number (c # cs) of
           Some (v, r) \<Rightarrow> Inr (v, r)
         | None \<Rightarrow>
             if c = 78 \<and> prefix (S ''aN'') cs then Inr (PFloat (S ''NaN''), drop 2 cs)
             else if c = 73 \<and> prefix (S ''nfinity'') cs
               then Inr (PFloat (S ''Infinity''), drop 7 cs)
             else if c = 45 \<and> prefix (S ''Infinity'') cs
               then Inr (PFloat (S ''-Infinity''), drop 8 cs)
             else Inl JSONDecodeError))"
| "scan_array 0 s = Inl RecursionError"
| "scan_array (Suc n) s =
     ebind (scan_once n s) (\<lambda>(v, r).
       case skip_ws r of
         [] \<Rightarrow> Inl JSONDecodeError
       | c # r1 \<Rightarrow>
           if c = 93 then Inr ([v], r1)
           else if c = 44
             then ebind (scan_array n (skip_ws r1)) (\<lambda>(vs, r2). Inr (v # vs, r2))
           else Inl JSONDecodeError)"
| "scan_object 0 s = Inl RecursionError"
| "scan_object (Suc n) s =
     ebind (scanstring s) (\<lambda>(key, r).
       case skip_ws r of
         [] \<Rightarrow> Inl JSONDecodeError
       | c # r1 \<Rightarrow>
           if c = 58 then
             ebind (scan_once n (skip_ws r1)) (\<lambda>(v, r2).
               case skip_ws r2 of
                 [] \<Rightarrow> Inl JSONDecodeError
               | d # r3 \<Rightarrow>
                   if d = 125 then Inr ([(key, v)], r3)
                   else if d = 44 then
                     (case skip_ws r3 of
                        [] \<Rightarrow> Inl JSONDecodeError
                      | q # r4 \<Rightarrow>
                          if q = 34
                          then ebind (scan_object n r4) (\<lambda>(ps, r5). Inr ((key, v) # ps, r5))
                          else Inl JSONDecodeError)
                   else Inl JSONDecodeError)
           else Inl JSONDecodeError)"

definition json_loads :: "pystr \<Rightarrow> error + pyval" where
  "json_loads s =
     (if prefix [65279] s then Inl JSONDecodeError
      else ebind (scan_once (Suc (Suc (length s + length s))) (skip_ws s)) (\<lambda>(v, r).
             if skip_ws r = [] then Inr v else Inl JSONDecodeError))"


section \<open>Base64 (\<open>base64.b64encode\<close>, \<open>base64.b64decode\<close>)\<close>

definition b64_char :: "nat \<Rightarrow> char" where
  "b64_char n =
     (if n < 26 then char_of (65 + n)
      else if n < 52 then char_of (71 + n)
      else if n < 62 then char_of (n - 4)
      else if n = 62 then CHR ''+''
      else CHR ''/'')"

fun b2a_base64 :: "nat list \<Rightarrow> bytes" where
  "b2a_base64 [] = []"
| "b2a_base64 [a] = [b64_char (a div 4), b64_char (a mod 4 * 16), CHR ''='', CHR ''='']"
| "b2a_base64 [a, b] =
     [b64_char (a div 4), b64_char (a mod 4 * 16 + b div 16), b64_char (b mod 16 * 4), CHR ''='']"
| "b2a_base64 (a # b # c # r) =
     b64_char (a div 4) # b64_char (a mod 4 * 16 + b div 16)
       # b64_char (b mod 16 * 4 + c div 64) # b64_char (c mod 64) # b2a_base64 r"

definition b64encode :: "bytes \<Rightarrow> bytes" where
  "b64encode b = b2a_base64 (map of_char b)"

definition b64_value :: "char \<Rightarrow> nat option" where
  "b64_value c =
     (let v = (of_char c :: nat)
      in if 65 \<le> v \<and> v \<le> 90 then Some (v - 65)
         else if 97 \<le> v \<and> v \<le> 122 then Some (v - 71)
         else if 48 \<le> v \<and> v \<le> 57 then Some (v + 4)
         else if v = 43 then Some 62
         else if v = 47 then Some 63
         else None)"

text \<open>
  \<open>binascii.a2b_base64\<close> in its default, non-strict mode: characters outside the alphabet
  are skipped, a complete padding ends the input, and data that stops inside a quad is
  an error. The state is the position in the quad, the bits left over from the previous
  character, the number of padding characters seen, and the output (reversed).
\<close>

fun a2b_base64 :: "bytes \<Rightarrow> nat \<Rightarrow> nat \<Rightarrow> nat \<Rightarrow> bytes \<Rightarrow> error + bytes" where
  "a2b_base64 [] quad_pos leftchar pad_count out =
     (if quad_pos = 0 then Inr (rev out) else Inl BinasciiError)"
| "a2b_base64 (c # cs) quad_pos leftchar pad_count out =
     (if c = CHR ''='' then
        (if 2 \<le> quad_pos then
           (if 4 \<le> quad_pos + (pad_count + 1) then Inr (rev out)
            else a2b_base64 cs quad_pos leftchar (pad_count + 1) out)
         else a2b_base64 cs quad_pos leftchar pad_count out)
      else
        (case b64_value c of
           None \<Rightarrow> a2b_base64 cs quad_pos leftchar pad_count out
         | Some v \<Rightarrow>
             if quad_pos = 0 then a2b_base64 cs 1 v 0 out
             else if quad_pos = 1
               then a2b_base64 cs 2 (v mod 16) 0 (char_of (leftchar * 4 + v div 16) # out)
             else if quad_pos = 2
               then a2b_base64 cs 3 (v mod 4) 0 (char_of (leftchar * 16 + v div 4) # out)
             else a2b_base64 cs 0 0 0 (char_of (leftchar * 64 + v) # out)))"

text \<open>
  \<open>b64decode\<close> takes \<open>bytes\<close>, or a \<open>str\<close> that it first encodes as ASCII
  (\<open>ValueError\<close> when it cannot).
\<close>

definition b64decode :: "pyval \<Rightarrow> error + bytes" where
  "b64decode s =
     (case s of
        PBytes b \<Rightarrow> a2b_base64 b 0 0 0 []
      | PStr t \<Rightarrow>
          if list_all (\<lambda>c. c < 128) t then a2b_base64 (map char_of t) 0 0 0 []
          else Inl ValueError
      | _ \<Rightarrow> Inl TypeError)"

section \<open>Messages (cmit/messages.py, cmit/utils.py)\<close>

text \<open>\<open>str.isspace\<close> and \<open>str.strip()\<close>.\<close>

definition py_isspace :: "nat \<Rightarrow> bool" where
  "py_isspace c =
     ((9 \<le> c \<and> c \<le> 13) \<or> (28 \<le> c \<and> c \<le> 32) \<or> c = 133 \<or> c = 160 \<or> c = 5760
      \<or> (8192 \<le> c \<and> c \<le> 8202) \<or> c = 8232 \<or> c = 8233 \<or> c = 8239 \<or> c = 8287
      \<or> c = 12288)"

definition strip :: "pystr \<Rightarrow> pystr" where
  "strip s = rev (dropWhile py_isspace (rev (dropWhile py_isspace s)))"

text \<open>\<open>utils.encode\<close>: \<open>data.encode('latin-1')\<close>; only a \<open>str\<close> has the method.\<close>

definition encode :: "pyval \<Rightarrow> error + bytes" where
  "encode data = (case data of PStr s \<Rightarrow> latin1_encode s | _ \<Rightarrow> Inl AttributeError)"

text \<open>Calling a value without arguments: only a producer can be called.\<close>

definition call0 :: "pyval \<Rightarrow> error + pyval" where
  "call0 v = (case v of PFun r \<Rightarrow> Inr r | _ \<Rightarrow> Inl TypeError)"

text \<open>
  A \<open>CMITMessage\<close>. The \<open>datetime\<close> in \<open>timestamp\<close> is represented by its POSIX
  timestamp, the \<open>float\<close> that \<open>posix_timestamp\<close> returns; \<open>stored_topic\<close> and
  \<open>stored_payload\<close> are the slots \<open>_topic\<close> and \<open>_payload\<close>.
\<close>

record message =
  timestamp :: pyval
  msg_id :: pyval
  stored_topic :: bytes
  stored_payload :: bytes

text \<open>\<open>CMITMessage(topic, msg_id)\<close> at the time \<open>now\<close> (\<open>datetime.utcnow()\<close>).\<close>

definition CMITMessage :: "pyval \<Rightarrow> pyval \<Rightarrow> pyval \<Rightarrow> error + message" where
  "CMITMessage now topic_arg id_arg =
     ebind (case topic_arg of
              PBytes b \<Rightarrow> Inr b
            | PStr s \<Rightarrow> encode topic_arg
            | _ \<Rightarrow> ebind (call0 topic_arg) encode)
       (\<lambda>t. Inr \<lparr>timestamp = now, msg_id = id_arg, stored_topic = t, stored_payload = []\<rparr>)"

definition topic :: "message \<Rightarrow> error + pystr" where
  "topic m = utf8_decode (stored_topic m)"

definition payload :: "message \<Rightarrow> error + pystr" where
  "payload m = utf8_decode (stored_payload m)"

definition set_payload :: "message \<Rightarrow> pyval \<Rightarrow> error + message" where
  "set_payload m v =
     ebind (case v of
              PStr s \<Rightarrow> encode v
            | PBytes b \<Rightarrow> Inr b
            | PFun r \<Rightarrow> encode r
            | _ \<Rightarrow> ebind (dumps v) (\<lambda>s. encode (PStr s)))
       (\<lambda>p. Inr (m\<lparr>stored_payload := p\<rparr>))"

definition set_topic :: "message \<Rightarrow> pyval \<Rightarrow> error + message" where
  "set_topic m v =
     ebind (case v of
              PStr s \<Rightarrow> encode v
            | PBytes b \<Rightarrow> Inr b
            | _ \<Rightarrow> ebind (call0 v) encode)
       (\<lambda>t. Inr (m\<lparr>stored_topic := t\<rparr>))"

definition posix_timestamp :: "message \<Rightarrow> pyval" where
  "posix_timestamp m = timestamp m"

text \<open>\<open>as_string()\<close> with its default arguments, \<open>as_bytes()\<close> and \<open>__call__\<close>.\<close>

definition as_string :: "message \<Rightarrow> error + pystr" where
  "as_string m =
     ebind (topic m) (\<lambda>t.
     ebind (payload m) (\<lambda>p.
       dumps (PDict [(S ''_id'', msg_id m), (S ''timestamp'', posix_timestamp m),
                     (S ''topic'', PStr t), (S ''payload'', PStr p)])))"

definition as_bytes :: "message \<Rightarrow> error + bytes" where
  "as_bytes m = ebind (as_string m) (\<lambda>s. encode (PStr s))"

definition call_message :: "message \<Rightarrow> error + bytes" where
  "call_message m = ebind (as_bytes m) (\<lambda>b. Inr (b64encode b))"

text \<open>
  \<open>datetime.fromtimestamp\<close>: a number is accepted (a \<open>bool\<close> is an \<open>int\<close>), \<open>NaN\<close> and the
  infinities are refused. The rounding to microseconds and the range of representable
  years are not modelled.
\<close>

definition fromtimestamp :: "pyval \<Rightarrow> error + pyval" where
  "fromtimestamp v =
     (case v of
        PInt i \<Rightarrow> Inr (PFloat (int_repr i @ S ''.0''))
      | PBool b \<Rightarrow> Inr (PFloat (if b then S ''1.0'' else S ''0.0''))
      | PFloat f \<Rightarrow>
          if f = S ''NaN'' then Inl ValueError
          else if f = S ''Infinity'' \<or> f = S ''-Infinity'' then Inl OverflowError
          else Inr (PFloat f)
      | _ \<Rightarrow> Inl TypeError)"

text \<open>\<open>except json.JSONDecodeError as jde: raise ValueError(...) from jde\<close>.\<close>

definition jde_to_ValueError :: "error + 'a \<Rightarrow> error + 'a" where
  "jde_to_ValueError r = (case r of Inl JSONDecodeError \<Rightarrow> Inl ValueError | _ \<Rightarrow> r)"

definition msg_keys :: "pystr list" where
  "msg_keys = [S ''_id'', S ''topic'', S ''timestamp'', S ''payload'']"

text \<open>
  Subscripting and membership on the decoded value: \<open>decoded_msg["payload"]\<close> raises
  \<open>TypeError\<close> unless the value is a dictionary (a \<open>str\<close> or a list cannot be indexed by
  a \<open>str\<close>, the other values cannot be indexed at all) and \<open>KeyError\<close> when the key is
  missing.
\<close>

definition getitem :: "pyval \<Rightarrow> pystr \<Rightarrow> error + pyval" where
  "getitem d k =
     (case d of
        PDict kvs \<Rightarrow> (case map_of kvs k of None \<Rightarrow> Inl KeyError | Some v \<Rightarrow> Inr v)
      | _ \<Rightarrow> Inl TypeError)"

definition setitem :: "pyval \<Rightarrow> pystr \<Rightarrow> pyval \<Rightarrow> error + pyval" where
  "setitem d k v = (case d of PDict kvs \<Rightarrow> Inr (PDict (od_set k v kvs)) | _ \<Rightarrow> Inl TypeError)"

definition decode_payload :: "pyval \<Rightarrow> error + pyval" where
  "decode_payload decoded_msg =
     ebind (getitem decoded_msg (S ''payload'')) (\<lambda>p.
       case p of
         PStr ps \<Rightarrow>
           if prefix (S ''{'') ps
           then ebind (json_loads ps) (\<lambda>v. setitem decoded_msg (S ''payload'') v)
           else Inr decoded_msg
       | _ \<Rightarrow> Inr decoded_msg)"

definition parse_message :: "pyval \<Rightarrow> pyval \<Rightarrow> error + message" where
  "parse_message now msg =
     ebind (jde_to_ValueError
              (ebind (b64decode msg) (\<lambda>raw.
               ebind (utf8_decode raw) (\<lambda>text.
               ebind (json_loads (strip text)) decode_payload))))
       (\<lambda>decoded_msg.
          case decoded_msg of
            PDict kvs \<Rightarrow>
              if 0 < length (filter (\<lambda>k. k \<notin> set (map fst kvs)) msg_keys) then Inl ValueError
              else
                ebind (getitem decoded_msg (S ''topic'')) (\<lambda>t.
                ebind (getitem decoded_msg (S ''_id'')) (\<lambda>i.
                ebind (CMITMessage now t i) (\<lambda>m.
                ebind (getitem decoded_msg (S ''payload'')) (\<lambda>p.
                ebind (set_payload m p) (\<lambda>m1.
                ebind (getitem decoded_msg (S ''timestamp'')) (\<lambda>ts.
                ebind (fromtimestamp ts) (\<lambda>t'. Inr (m1\<lparr>timestamp := t'\<rparr>))))))))
          | _ \<Rightarrow> Inl TypeError)"


section \<open>Line input and string helpers\<close>

definition MAXLINE :: nat where
  "MAXLINE = 65536"

text \<open>
  \<open>fp.readline(limit)\<close> on the bytes still to be read: the line up to and including its
  newline, cut at \<open>limit\<close> bytes; the result is empty only at the end of the input.
\<close>

definition readline :: "nat \<Rightarrow> bytes \<Rightarrow> bytes \<times> bytes" where
  "readline limit s =
     (let line = take limit (take (Suc (length (takeWhile (\<lambda>c. c \<noteq> CHR 0x0A) s))) s)
      in (line, drop (length line) s))"

text \<open>\<open>str.split(None, maxsplit)\<close>.\<close>

fun split_ws :: "nat \<Rightarrow> pystr \<Rightarrow> pystr list" where
  "split_ws 0 s = (let r = dropWhile py_isspace s in if r = [] then [] else [r])"
| "split_ws (Suc n) s =
     (let r = dropWhile py_isspace s
      in if r = [] then []
         else takeWhile (\<lambda>c. \<not> py_isspace c) r
                # split_ws n (dropWhile (\<lambda>c. \<not> py_isspace c) r))"

text \<open>
  \<open>int(s)\<close> for a \<open>str\<close>: surrounding whitespace, an optional sign, and decimal digits
  that single underscores may separate. Only the ASCII digits are modelled; Python also
  accepts the decimal digits of other scripts.
\<close>

fun int_digits_ok :: "pystr \<Rightarrow> bool" where
  "int_digits_ok [] = False"
| "int_digits_ok [d] = is_digit d"
| "int_digits_ok (d # u # r) =
     (is_digit d \<and> (if u = 95 then int_digits_ok r else int_digits_ok (u # r)))"

definition py_int :: "pystr \<Rightarrow> error + int" where
  "py_int s =
     (let t = strip s;
          neg = (case t of c # r \<Rightarrow> c = 45 | [] \<Rightarrow> False);
          d = (case t of c # r \<Rightarrow> if c = 45 \<or> c = 43 then r else t | [] \<Rightarrow> [])
      in if int_digits_ok d
         then Inr (if neg then - int (nat_of_digits (filter is_digit d))
                   else int (nat_of_digits (filter is_digit d)))
         else Inl ValueError)"

section \<open>Client (cmit/client.py)\<close>

text \<open>
  A connected socket: what has been sent on it, what the peer delivers before it closes,
  and whether writing succeeds (\<open>sendall\<close> raises \<open>OSError\<close> otherwise).
\<close>

record socket =
  sent :: bytes
  incoming :: bytes
  writable :: bool

definition sendall :: "socket \<Rightarrow> bytes \<Rightarrow> error + socket" where
  "sendall s b = (if writable s then Inr (s\<lparr>sent := sent s @ b\<rparr>) else Inl OSError)"

text \<open>
  The environment of a call: the clock (\<open>datetime.utcnow()\<close>), the random bits of
  \<open>randbits(128)\<close>, the outcome of connecting (\<open>None\<close> for a failed connect) and the
  paths for which \<open>os.stat\<close> succeeds.
\<close>

record env =
  now :: pyval
  randbits :: nat
  connect_result :: "socket option"
  path_exists :: "pystr \<Rightarrow> bool"

text \<open>\<open>parse_message(fp)\<close> of the client: the blank line and the message line.\<close>

definition client_parse_message :: "pyval \<Rightarrow> bytes \<Rightarrow> bytes \<times> (error + message)" where
  "client_parse_message tm fp =
     (let (line, fp1) = readline (MAXLINE + 1) fp
      in if MAXLINE < length line then (fp1, Inl (LineTooLong ''seperation line''))
         else if line \<noteq> [CHR 0x0D, CHR 0x0A] then (fp1, Inl ValueError)
         else
           (let (line2, fp2) = readline (MAXLINE + 1) fp1
            in if MAXLINE < length line2 then (fp2, Inl (LineTooLong ''message line''))
               else if line2 = [] then (fp2, Inl RemoteDisconnected)
               else
                 (case parse_message tm (PBytes line2) of
                    Inl e \<Rightarrow> (fp2, Inl (if is_ValueError e then ValueError else e))
                  | Inr m \<Rightarrow> (fp2, Inr m))))"

text \<open>
  \<open>CMITResponse\<close>: \<open>fp\<close> is the input still to be read, \<open>None\<close> once the response is
  closed; \<open>version\<close>, \<open>status\<close> and \<open>reason\<close> start as the string \<open>UNKNOWN\<close>.
\<close>

record response =
  fp :: "bytes option"
  will_close :: bool
  version :: pyval
  status :: pyval
  reason :: pystr
  msg :: "message option"

definition CMITResponse :: "socket \<Rightarrow> response" where
  "CMITResponse sock =
     \<lparr>fp = Some (incoming sock), will_close = True, version = PStr (S ''UNKNOWN''),
      status = PStr (S ''UNKNOWN''), reason = S ''UNKNOWN'', msg = None\<rparr>"

definition close_conn :: "response \<Rightarrow> response" where
  "close_conn r = r\<lparr>fp := None\<rparr>"

definition isclosed :: "response \<Rightarrow> bool" where
  "isclosed r = (fp r = None)"

text \<open>
  \<open>_read_status\<close>: the line is decoded as UTF-8 and split at whitespace into version,
  status and reason; its length is taken after decoding, in characters.
\<close>

definition split_status_line :: "pystr \<Rightarrow> pystr \<times> pystr \<times> pystr" where
  "split_status_line line =
     (let ws3 = split_ws 2 line; ws2 = split_ws 1 line
      in if length ws3 = 3 then (ws3 ! 0, ws3 ! 1, ws3 ! 2)
         else if length ws2 = 2 then (ws2 ! 0, ws2 ! 1, [])
         else ([], [], []))"

definition check_status_line ::
  "response \<Rightarrow> pystr \<Rightarrow> response \<times> (error + (pystr \<times> int \<times> pystr))" where
  "check_status_line r line =
     (case split_status_line line of
        (v, st, re) \<Rightarrow>
          if prefix (S ''CMIT/'') v then
            (case py_int st of
               Inl e \<Rightarrow> (r, Inl BadStatusLine)
             | Inr code \<Rightarrow>
                 if 100 \<le> code \<and> code \<le> 999 then (r, Inr (v, code, re))
                 else (r, Inl BadStatusLine))
          else (close_conn r, Inl BadStatusLine))"

definition read_status :: "response \<Rightarrow> response \<times> (error + (pystr \<times> int \<times> pystr))" where
  "read_status r =
     (case fp r of
        None \<Rightarrow> (r, Inl AttributeError)
      | Some input \<Rightarrow>
          (case readline (MAXLINE + 1) input of
             (raw, rest) \<Rightarrow>
               (case utf8_decode raw of
                  Inl e \<Rightarrow> (r\<lparr>fp := Some rest\<rparr>, Inl e)
                | Inr line \<Rightarrow>
                    if MAXLINE < length line
                      then (r\<lparr>fp := Some rest\<rparr>, Inl (LineTooLong ''status line''))
                    else if line = [] then (r\<lparr>fp := Some rest\<rparr>, Inl RemoteDisconnected)
                    else check_status_line (r\<lparr>fp := Some rest\<rparr>) line)))"

lemma readline_shorter:
  "readline limit s = (line, rest) \<Longrightarrow> line \<noteq> [] \<Longrightarrow> length rest < length s"
  by (auto simp: readline_def Let_def)

lemma check_status_line_ok: "check_status_line r line = (r', Inr x) \<Longrightarrow> r' = r"
  by (cases "split_status_line line")
     (auto simp: check_status_line_def split: sum.splits if_splits)

lemma read_status_consumes:
  assumes "read_status r = (r', Inr x)"
  shows "length (the (fp r')) < length (the (fp r))"
proof -
  from assms obtain input where i: "fp r = Some input"
    by (cases "fp r") (simp_all add: read_status_def)
  obtain raw rest where rl: "readline (MAXLINE + 1) input = (raw, rest)"
    by (cases "readline (MAXLINE + 1) input")
  from assms i rl obtain line where line: "utf8_decode raw = Inr line"
    by (cases "utf8_decode raw") (simp_all add: read_status_def)
  from assms i rl line have ne: "line \<noteq> []" and
    c: "check_status_line (r\<lparr>fp := Some rest\<rparr>) line = (r', Inr x)"
    by (simp_all add: read_status_def split: if_splits)
  from check_status_line_ok [OF c] have r': "fp r' = Some rest" by simp
  from line ne have "raw \<noteq> []" by (auto simp: utf8_decode_def)
  from readline_shorter [OF rl this] show ?thesis by (simp add: i r')
qed

text \<open>
  The loop of \<open>begin\<close> that skips interim \<open>100\<close> status lines; every line it reads
  shortens the input.
\<close>

function read_final_status :: "response \<Rightarrow> response \<times> (error + (pystr \<times> int \<times> pystr))" where
  "read_final_status r =
     (case read_status r of
        (r', Inl e) \<Rightarrow> (r', Inl e)
      | (r', Inr (v, code, re)) \<Rightarrow>
          if code \<noteq> 100 then (r', Inr (v, code, re)) else read_final_status r')"
  by pat_completeness auto
termination
  by (relation "measure (\<lambda>r. length (the (fp r)))") (auto dest: read_status_consumes [OF sym])

definition response_begin :: "pyval \<Rightarrow> response \<Rightarrow> response \<times> (error + unit)" where
  "response_begin tm r =
     (if msg r \<noteq> None then (r, Inr ())
      else
        (case read_final_status r of
           (r1, Inl e) \<Rightarrow> (r1, Inl e)
         | (r1, Inr (v, code, re)) \<Rightarrow>
             (let r2 = r1\<lparr>status := PInt code, reason := strip re\<rparr>
              in if v = S ''CMIT/1.0'' then
                   (case fp r2 of
                      None \<Rightarrow> (r2\<lparr>version := PInt 10\<rparr>, Inl AttributeError)
                    | Some input \<Rightarrow>
                        (case client_parse_message tm input of
                           (rest, Inl e) \<Rightarrow> (r2\<lparr>version := PInt 10, fp := Some rest\<rparr>, Inl e)
                         | (rest, Inr m) \<Rightarrow>
                             (r2\<lparr>version := PInt 10, fp := Some rest, msg := Some m\<rparr>, Inr ())))
                 else (r2, Inl (UnknownProtocol v)))))"


text \<open>
  \<open>CMITConnection\<close>: the socket (\<open>None\<close> while not connected), the state, the response
  still held, the message cache and the socket path.
\<close>

datatype cstate = CS_IDLE | CS_REQ_STARTED | CS_REQ_SENT

record connection =
  sock :: "socket option"
  cstate :: cstate
  held_response :: "response option"
  messages :: "(pyval \<times> message) list"
  socket_fp :: pystr

text \<open>
  \<open>_validate_socket_path\<close>: no character of \<open>[\x00-\x20\x7f]\<close>, and the path exists.
\<close>

definition validate_socket_path :: "env \<Rightarrow> pystr \<Rightarrow> error + unit" where
  "validate_socket_path e p =
     (if list_ex (\<lambda>c. c \<le> 32 \<or> c = 127) p then Inl InvalidSocketPath
      else if path_exists e p then Inr () else Inl InvalidSocketPath)"

definition CMITConnection :: "env \<Rightarrow> pystr \<Rightarrow> error + connection" where
  "CMITConnection e p =
     ebind (validate_socket_path e p)
       (\<lambda>_. Inr \<lparr>sock = None, cstate = CS_IDLE, held_response = None, messages = [],
                 socket_fp = p\<rparr>)"

definition connect :: "env \<Rightarrow> connection \<Rightarrow> connection \<times> (error + unit)" where
  "connect e c =
     (case connect_result e of
        None \<Rightarrow> (c, Inl OSError)
      | Some s \<Rightarrow> (c\<lparr>sock := Some s\<rparr>, Inr ()))"

definition close :: "connection \<Rightarrow> connection" where
  "close c = c\<lparr>cstate := CS_IDLE, sock := None, held_response := None\<rparr>"

text \<open>\<open>self.sock.sendall(data)\<close>; without a socket the attribute lookup fails.\<close>

definition sock_sendall :: "connection \<Rightarrow> bytes \<Rightarrow> connection \<times> (error + unit)" where
  "sock_sendall c b =
     (case sock c of
        None \<Rightarrow> (c, Inl AttributeError)
      | Some s \<Rightarrow>
          (case sendall s b of
             Inl e \<Rightarrow> (c, Inl e)
           | Inr s' \<Rightarrow> (c\<lparr>sock := Some s'\<rparr>, Inr ())))"

definition send :: "env \<Rightarrow> connection \<Rightarrow> pystr \<Rightarrow> connection \<times> (error + unit)" where
  "send e c data =
     (case (if sock c = None then connect e c else (c, Inr ())) of
        (c1, Inl err) \<Rightarrow> (c1, Inl err)
      | (c1, Inr _) \<Rightarrow>
          (case encode (PStr data) of
             Inl err \<Rightarrow> (c1, Inl err)
           | Inr b \<Rightarrow> sock_sendall c1 b))"

definition end_request :: "env \<Rightarrow> connection \<Rightarrow> connection \<times> (error + unit)" where
  "end_request e c =
     (if cstate c = CS_REQ_STARTED then send e (c\<lparr>cstate := CS_REQ_SENT\<rparr>) [13, 10]
      else (c, Inl ImproperConnectionState))"

text \<open>A key of a dictionary must be hashable: lists and dictionaries are not.\<close>

definition hashable :: "pyval \<Rightarrow> bool" where
  "hashable v = (case v of PList _ \<Rightarrow> False | PDict _ \<Rightarrow> False | _ \<Rightarrow> True)"

text \<open>
  The message of \<open>_send_request\<close>: a \<open>str\<close> or callable payload is assigned, a \<open>dict\<close> is
  serialised first, anything else leaves the payload empty.
\<close>

definition request_message :: "pyval \<Rightarrow> pyval \<Rightarrow> pyval \<Rightarrow> pyval \<Rightarrow> error + message" where
  "request_message tm topic_arg payload_arg id_arg =
     ebind (CMITMessage tm topic_arg id_arg) (\<lambda>m.
       case payload_arg of
         PStr s \<Rightarrow> set_payload m payload_arg
       | PFun r \<Rightarrow> set_payload m payload_arg
       | PDict kvs \<Rightarrow> ebind (dumps payload_arg) (\<lambda>s. set_payload m (PStr s))
       | _ \<Rightarrow> Inr m)"

text \<open>
  \<open>_send_request\<close>. \<open>str.upper\<close> is Unicode's case mapping and is the parameter
  \<open>upper\<close>. The three writes are the request line, the blank line and the encoded
  message; \<open>end_request\<close> then ends the message line.
\<close>

definition send_request ::
  "(pystr \<Rightarrow> pystr) \<Rightarrow> env \<Rightarrow> connection \<Rightarrow> pystr \<Rightarrow> pyval \<Rightarrow> pyval \<Rightarrow> pyval
     \<Rightarrow> connection \<times> (error + unit)" where
  "send_request upper e c command topic_arg payload_arg id_arg =
     (let c0 = (case held_response c of
                  Some r \<Rightarrow> if isclosed r then c\<lparr>held_response := None\<rparr> else c
                | None \<Rightarrow> c)
      in if cstate c0 = CS_IDLE then
           (let c1 = c0\<lparr>cstate := CS_REQ_STARTED\<rparr>
            in case request_message (now e) topic_arg payload_arg id_arg of
                 Inl err \<Rightarrow> (c1, Inl err)
               | Inr m \<Rightarrow>
                   if \<not> hashable id_arg then (c1, Inl TypeError)
                   else
                     (let c2 = c1\<lparr>messages := od_set id_arg m (messages c1)\<rparr>
                      in if sock c2 = None then (c2, Inl AttributeError)
                         else
                           (case encode (PStr (upper command @ S '' CMIT/1.0'' @ [13, 10])) of
                              Inl err \<Rightarrow> (c2, Inl err)
                            | Inr line \<Rightarrow>
                                (case sock_sendall c2 line of
                                   (c3, Inl err) \<Rightarrow> (c3, Inl err)
                                 | (c3, Inr _) \<Rightarrow>
                                     (case sock_sendall c3 [CHR 0x0D, CHR 0x0A] of
                                        (c4, Inl err) \<Rightarrow> (c4, Inl err)
                                      | (c4, Inr _) \<Rightarrow>
                                          (case call_message m of
                                             Inl err \<Rightarrow> (c4, Inl err)
                                           | Inr b \<Rightarrow>
                                               (case sock_sendall c4 b of
                                                  (c5, Inl err) \<Rightarrow> (c5, Inl err)
                                                | (c5, Inr _) \<Rightarrow> end_request e c5)))))))
         else (c0, Inl CannotSendRequest))"

text \<open>\<open>"%032x" % n\<close>.\<close>

function hex_digits :: "nat \<Rightarrow> pystr" where
  "hex_digits n =
     (if n < 16 then [hex_digit n] else hex_digits (n div 16) @ [hex_digit (n mod 16)])"
  by pat_completeness auto
termination
  by (relation "measure id") auto

definition hex32 :: "nat \<Rightarrow> pystr" where
  "hex32 n = replicate (32 - length (hex_digits n)) 48 @ hex_digits n"

definition request ::
  "(pystr \<Rightarrow> pystr) \<Rightarrow> env \<Rightarrow> connection \<Rightarrow> pystr \<Rightarrow> pyval \<Rightarrow> pyval \<Rightarrow> pyval option
     \<Rightarrow> connection \<times> (error + pyval)" where
  "request upper e c command topic_arg payload_arg id_opt =
     (let id_arg = (case id_opt of None \<Rightarrow> PStr (hex32 (randbits e)) | Some i \<Rightarrow> i)
      in case send_request upper e c command topic_arg payload_arg id_arg of
           (c', Inl err) \<Rightarrow> (c', Inl err)
         | (c', Inr _) \<Rightarrow> (c', Inr id_arg))"

text \<open>
  \<open>getresponse\<close>. A \<open>RemoteDisconnected\<close> is a \<open>ConnectionError\<close> and closes the connection;
  every other exception of \<open>begin\<close> closes only the response. A response always has
  \<open>will_close\<close> set, so a successful exchange closes the connection.
\<close>

definition getresponse :: "env \<Rightarrow> connection \<Rightarrow> connection \<times> (error + response)" where
  "getresponse e c =
     (let c0 = (case held_response c of
                  Some r \<Rightarrow> if isclosed r then c\<lparr>held_response := None\<rparr> else c
                | None \<Rightarrow> c)
      in if cstate c0 = CS_REQ_SENT \<and> held_response c0 = None then
           (case sock c0 of
              None \<Rightarrow> (c0, Inl AttributeError)
            | Some s \<Rightarrow>
                (case response_begin (now e) (CMITResponse s) of
                   (r, Inl err) \<Rightarrow>
                     (if err = RemoteDisconnected then close c0 else c0, Inl err)
                 | (r, Inr _) \<Rightarrow>
                     if will_close r then (close (c0\<lparr>cstate := CS_IDLE\<rparr>), Inr r)
                     else (c0\<lparr>cstate := CS_IDLE, held_response := Some r\<rparr>, Inr r)))
         else (c0, Inl ResponseNotReady))"


section \<open>Socket paths (cmit/requests, internal utilities)\<close>

definition is_alpha :: "nat \<Rightarrow> bool" where
  "is_alpha c = ((65 \<le> c \<and> c \<le> 90) \<or> (97 \<le> c \<and> c \<le> 122))"

text \<open>
  \<open>_SCHEME_RE.search\<close>: the text starts with \<open>[a-zA-Z][a-zA-Z0-9+-]*:\<close> or with a slash.
\<close>

definition scheme_re :: "pystr \<Rightarrow> bool" where
  "scheme_re s =
     (case s of
        [] \<Rightarrow> False
      | c # r \<Rightarrow>
          c = 47 \<or>
          (is_alpha c \<and>
           (case dropWhile (\<lambda>x. is_alpha x \<or> is_digit x \<or> x = 43 \<or> x = 45) r of
              [] \<Rightarrow> False | d # _ \<Rightarrow> d = 58)))"

text \<open>
  \<open>_URI_RE.match(...).groups()\<close>: an optional scheme \<open>[a-zA-Z][a-zA-Z0-9+.-]*\<close> before a
  colon, an optional \<open>//\<close> followed by the longest run without backslash, \<open>?\<close>, \<open>#\<close> and
  dot, and the rest, which must hold neither \<open>?\<close> nor \<open>#\<close> for the expression to match.
\<close>

definition uri_scheme_char :: "nat \<Rightarrow> bool" where
  "uri_scheme_char x = (is_alpha x \<or> is_digit x \<or> x = 43 \<or> x = 46 \<or> x = 45)"

definition uri_path_char :: "nat \<Rightarrow> bool" where
  "uri_path_char x = (x \<noteq> 92 \<and> x \<noteq> 63 \<and> x \<noteq> 35 \<and> x \<noteq> 46)"

definition uri_re :: "pystr \<Rightarrow> (pystr option \<times> pystr option \<times> pystr) option" where
  "uri_re s =
     (let has_scheme =
            (case s of
               [] \<Rightarrow> False
             | c # r \<Rightarrow>
                 is_alpha c \<and>
                 (case dropWhile uri_scheme_char r of [] \<Rightarrow> False | d # _ \<Rightarrow> d = 58));
          scheme = (if has_scheme then Some (hd s # takeWhile uri_scheme_char (tl s)) else None);
          s1 = (if has_scheme then tl (dropWhile uri_scheme_char (tl s)) else s);
          has_path = prefix (S ''//'') s1;
          path = (if has_path then Some (takeWhile uri_path_char (drop 2 s1)) else None);
          s2 = (if has_path then dropWhile uri_path_char (drop 2 s1) else s1)
      in if list_ex (\<lambda>x. x = 63 \<or> x = 35) s2 then None else Some (scheme, path, s2))"

text \<open>
  \<open>SocketPath(scheme, path, file_type)\<close> lower-cases the scheme (ASCII by the expression
  that matched it) and makes a non-empty path start with a slash.
\<close>

record SocketPath =
  scheme :: "pystr option"
  path :: "pystr option"
  file_type :: "pystr option"

definition new_SocketPath :: "pystr option \<Rightarrow> pystr option \<Rightarrow> pystr option \<Rightarrow> SocketPath" where
  "new_SocketPath sc p ft =
     \<lparr>scheme = map_option (map lower_ascii) sc,
      path = (case p of
                Some q \<Rightarrow> if q \<noteq> [] \<and> \<not> prefix (S ''/'') q then Some (S ''/'' @ q) else Some q
              | None \<Rightarrow> None),
      file_type = ft\<rparr>"

definition parse_socket_path :: "pystr \<Rightarrow> error + SocketPath" where
  "parse_socket_path socket_path =
     (if socket_path = [] then Inr (new_SocketPath None None None)
      else
        (case uri_re (if scheme_re socket_path then socket_path else S ''//'' @ socket_path) of
           None \<Rightarrow> Inl ValueError
         | Some (sc, p, ft) \<Rightarrow>
             Inr (new_SocketPath (map_option (map lower_ascii) sc) p
                    (Some (if ft = [] then S ''.sock'' else ft)))))"

text \<open>The property \<open>socket_path\<close>: \<open>self.path + self.file_type\<close>.\<close>

definition socket_path_of :: "SocketPath \<Rightarrow> error + pystr" where
  "socket_path_of sp =
     (case (path sp, file_type sp) of
        (Some p, Some ft) \<Rightarrow> Inr (p @ ft)
      | _ \<Rightarrow> Inl TypeError)"

section \<open>Adapter (cmit/requests/adapters.py)\<close>

text \<open>
  Connections are objects: the adapter and its caller may hold the same one. \<open>objects\<close>
  lists every connection created so far, a reference is a position in it, and
  \<open>pooled\<close> is the adapter's attribute \<open>connection\<close>.
\<close>

record adapter =
  objects :: "connection list"
  pooled :: "nat option"

definition valid_adapter :: "adapter \<Rightarrow> bool" where
  "valid_adapter a = (case pooled a of None \<Rightarrow> True | Some r \<Rightarrow> r < length (objects a))"

definition get_connection :: "env \<Rightarrow> adapter \<Rightarrow> pystr \<Rightarrow> adapter \<times> (error + nat)" where
  "get_connection e a fp_arg =
     (case ebind (parse_socket_path fp_arg) socket_path_of of
        Inl err \<Rightarrow> (a, Inl err)
      | Inr target \<Rightarrow>
          (case pooled a of
             Some r \<Rightarrow>
               if socket_fp (objects a ! r) \<noteq> target then
                 (let a1 = a\<lparr>pooled := None, objects := (objects a)[r := close (objects a ! r)]\<rparr>
                  in case CMITConnection e target of
                       Inl err \<Rightarrow> (a1, Inl err)
                     | Inr c \<Rightarrow> (a1\<lparr>objects := objects a1 @ [c]\<rparr>, Inr (length (objects a1))))
               else (a, Inr r)
           | None \<Rightarrow>
               (case CMITConnection e target of
                  Inl err \<Rightarrow> (a, Inl err)
                | Inr c \<Rightarrow>
                    (a\<lparr>objects := objects a @ [c], pooled := Some (length (objects a))\<rparr>,
                     Inr (length (objects a))))))"

section \<open>Server (cmit/server.py)\<close>

datatype CMITStatus =
    CONTINUE | PROCESSING | OK | ACCEPTED | BAD_REQUEST | UNAUTHORIZED
  | INTERNAL_SERVER_ERROR | NOT_IMPLEMENTED | BAD_GATEWAY | SERVICE_UNAVAILABLE

fun status_value :: "CMITStatus \<Rightarrow> int" where
  "status_value CONTINUE = 100"
| "status_value PROCESSING = 102"
| "status_value OK = 200"
| "status_value ACCEPTED = 202"
| "status_value BAD_REQUEST = 300"
| "status_value UNAUTHORIZED = 301"
| "status_value INTERNAL_SERVER_ERROR = 400"
| "status_value NOT_IMPLEMENTED = 401"
| "status_value BAD_GATEWAY = 402"
| "status_value SERVICE_UNAVAILABLE = 403"

fun phrase :: "CMITStatus \<Rightarrow> pystr" where
  "phrase CONTINUE = S ''Continue''"
| "phrase PROCESSING = S ''Processing''"
| "phrase OK = S ''OK''"
| "phrase ACCEPTED = S ''Accepted''"
| "phrase BAD_REQUEST = S ''Bad Request''"
| "phrase UNAUTHORIZED = S ''Unauthorized''"
| "phrase INTERNAL_SERVER_ERROR = S ''Internal Server Error''"
| "phrase NOT_IMPLEMENTED = S ''Not Implemented''"
| "phrase BAD_GATEWAY = S ''Bad Gateway''"
| "phrase SERVICE_UNAVAILABLE = S ''Service Unavailable''"

fun description :: "CMITStatus \<Rightarrow> pystr" where
  "description CONTINUE = S ''Request received, please continue''"
| "description PROCESSING = S ''Request in progress''"
| "description OK = S ''Request fulfilled, document follows''"
| "description ACCEPTED = S ''Request accepted, processing continues off-line''"
| "description BAD_REQUEST = S ''Bad request syntax or unsupported method''"
| "description UNAUTHORIZED = S ''No permission -- see authorization schemes''"
| "description INTERNAL_SERVER_ERROR = S ''Server got itself in trouble''"
| "description NOT_IMPLEMENTED = S ''Server does not support this operation''"
| "description BAD_GATEWAY = S ''Invalid responses from another server/proxy''"
| "description SERVICE_UNAVAILABLE =
     S ''The server cannot process the request due to a high load''"

text \<open>
  The request handler: the input still to be read, the output written so far, and the
  attributes the methods set. \<open>response_buffer\<close> is \<open>None\<close> while the attribute
  \<open>_response_buffer\<close> does not exist. Logging is left out.
\<close>

record handler =
  rfile :: bytes
  wfile :: bytes
  close_connection :: bool
  raw_request_line :: bytes
  request_line :: pystr
  request_version :: pystr
  command :: "pystr option"
  request_msg :: "message option"
  response_buffer :: "bytes list option"

text \<open>
  The server's clock, as \<open>datetime.utcnow()\<close> and as
  \<open>int(datetime.utcnow().timestamp())\<close>, and its random bits.
\<close>

record server_env =
  server_now :: pyval
  clock :: int
  server_randbits :: nat

definition wfile_write :: "handler \<Rightarrow> bytes \<Rightarrow> handler" where
  "wfile_write h b = h\<lparr>wfile := wfile h @ b\<rparr>"

definition send_response_status :: "handler \<Rightarrow> CMITStatus \<Rightarrow> pystr \<Rightarrow> handler \<times> (error + unit)" where
  "send_response_status h code message =
     (case latin1_encode (S ''CMIT/1.0 '' @ int_repr (status_value code) @ S '' '' @ message
                          @ [13, 10]) of
        Inl err \<Rightarrow> (h\<lparr>response_buffer := Some (case response_buffer h of None \<Rightarrow> [] | Some b \<Rightarrow> b)\<rparr>,
                    Inl err)
      | Inr line \<Rightarrow>
          (h\<lparr>response_buffer :=
                Some ((case response_buffer h of None \<Rightarrow> [] | Some b \<Rightarrow> b) @ [line])\<rparr>,
           Inr ()))"

definition send_response :: "handler \<Rightarrow> CMITStatus \<Rightarrow> pystr option \<Rightarrow> handler \<times> (error + unit)" where
  "send_response h code message =
     send_response_status h code (case message of None \<Rightarrow> phrase code | Some m \<Rightarrow> m)"

definition flush_response_line :: "handler \<Rightarrow> handler" where
  "flush_response_line h =
     (case response_buffer h of
        None \<Rightarrow> h
      | Some b \<Rightarrow> (wfile_write h (concat b))\<lparr>response_buffer := Some []\<rparr>)"

definition end_response_line :: "handler \<Rightarrow> handler \<times> (error + unit)" where
  "end_response_line h =
     (case response_buffer h of
        None \<Rightarrow> (h, Inl AttributeError)
      | Some b \<Rightarrow>
          (flush_response_line (h\<lparr>response_buffer := Some (b @ [[CHR 0x0D, CHR 0x0A]])\<rparr>), Inr ()))"

text \<open>
  \<open>ServerErrorMessage(topic, msg_id, ts, code, reason)\<close>: the payload is the JSON text of
  the code and the reason.
\<close>

definition ServerErrorMessage ::
  "pyval \<Rightarrow> pystr \<Rightarrow> pystr \<Rightarrow> int \<Rightarrow> CMITStatus \<Rightarrow> pystr \<Rightarrow> error + message" where
  "ServerErrorMessage tm topic_arg id_arg ts code why =
     ebind (CMITMessage tm (PStr topic_arg) (PStr id_arg)) (\<lambda>m.
     ebind (fromtimestamp (PInt ts)) (\<lambda>t.
     ebind (dumps (PDict [(S ''code'', PInt (status_value code)), (S ''reason'', PStr why)]))
       (\<lambda>s. set_payload (m\<lparr>timestamp := t\<rparr>) (PStr s))))"

text \<open>
  \<open>send_error(code, message)\<close>: the status line is written, then the encoded error
  message; the topic defaults to \<open>error.<message>\<close> and the id to random hexadecimal digits.
\<close>

definition send_error ::
  "server_env \<Rightarrow> handler \<Rightarrow> CMITStatus \<Rightarrow> pystr option \<Rightarrow> handler \<times> (error + unit)" where
  "send_error e h code message_arg =
     (let message = (case message_arg of None \<Rightarrow> phrase code | Some m \<Rightarrow> m)
      in case ServerErrorMessage (server_now e) (S ''error.'' @ message) (hex32 (server_randbits e)) (clock e)
                code (message @ S '' - '' @ description code) of
           Inl err \<Rightarrow> (h, Inl err)
         | Inr m \<Rightarrow>
             (case send_response h code (Some message) of
                (h1, Inl err) \<Rightarrow> (h1, Inl err)
              | (h1, Inr _) \<Rightarrow>
                  (case call_message m of
                     Inl err \<Rightarrow> (flush_response_line h1, Inl err)
                   | Inr b \<Rightarrow> (wfile_write (flush_response_line h1) b, Inr ()))))"

text \<open>
  The pieces of \<open>parse_request\<close>. \<open>str.split(sep)\<close> for a one-character separator,
  \<open>str.rstrip('\r\n')\<close>, and \<open>str.isdigit\<close>, whose digits below \<open>256\<close> are the ASCII digits
  and the superscripts two, three and one (a request line is decoded as Latin-1, so no
  other character occurs).
\<close>

fun split_char :: "nat \<Rightarrow> pystr \<Rightarrow> pystr list" where
  "split_char sep [] = [[]]"
| "split_char sep (c # cs) =
     (if c = sep then [] # split_char sep cs
      else (case split_char sep cs of w # ws \<Rightarrow> (c # w) # ws | [] \<Rightarrow> [[c]]))"

definition split_first :: "nat \<Rightarrow> pystr \<Rightarrow> pystr list" where
  "split_first sep s =
     (if sep \<in> set s then [takeWhile (\<lambda>c. c \<noteq> sep) s, tl (dropWhile (\<lambda>c. c \<noteq> sep) s)]
      else [s])"

definition rstrip_crlf :: "pystr \<Rightarrow> pystr" where
  "rstrip_crlf s = rev (dropWhile (\<lambda>c. c = 13 \<or> c = 10) (rev s))"

definition isdigit :: "pystr \<Rightarrow> bool" where
  "isdigit v = (v \<noteq> [] \<and> list_all (\<lambda>c. is_digit c \<or> c = 178 \<or> c = 179 \<or> c = 185) v)"

text \<open>
  The \<open>try\<close> block of \<open>parse_request\<close>: the version must start with \<open>CMIT/\<close> and continue
  with two dot-separated groups of at most three digits.
\<close>

definition parse_version :: "pystr \<Rightarrow> error + (int \<times> int)" where
  "parse_version v =
     (if \<not> prefix (S ''CMIT/'') v then Inl ValueError
      else
        (case split_first 47 v of
           [a, base_version_number] \<Rightarrow>
             (let version_number = split_char 46 base_version_number
              in if length version_number \<noteq> 2 then Inl ValueError
                 else if list_ex (\<lambda>w. \<not> isdigit w) version_number then Inl ValueError
                 else if list_ex (\<lambda>w. 3 < length w) version_number then Inl ValueError
                 else ebind (py_int (version_number ! 0)) (\<lambda>major.
                      ebind (py_int (version_number ! 1)) (\<lambda>minor. Inr (major, minor))))
         | _ \<Rightarrow> Inl IndexError))"

text \<open>
  \<open>parse_request\<close> returns \<open>True\<close>, \<open>False\<close> or, when the line has one word, nothing
  (\<open>None\<close>). With three words the error message names \<open>requestline\<close>, which is not
  defined: a \<open>NameError\<close>.
\<close>

definition parse_request :: "server_env \<Rightarrow> handler \<Rightarrow> handler \<times> (error + pyval)" where
  "parse_request e h =
     (let line = rstrip_crlf (latin1_decode (raw_request_line h));
          h1 = h\<lparr>command := None, request_version := S ''CMIT/1.0'', close_connection := True,
                 request_line := line\<rparr>;
          words = split_ws 2 line
      in if length words = 0 then (h1, Inr (PBool False))
         else if 2 \<le> length words then
           (case parse_version (last words) of
              Inl err \<Rightarrow>
                if err = ValueError \<or> err = IndexError then
                  (case send_error e h1 BAD_REQUEST
                          (Some (S ''Bad protocol version ('' @ last words @ S '')'')) of
                     (h2, Inl err2) \<Rightarrow> (h2, Inl err2)
                   | (h2, Inr _) \<Rightarrow> (h2, Inr (PBool False)))
                else (h1, Inl err)
            | Inr (major, minor) \<Rightarrow>
                if 2 < major \<or> (major = 2 \<and> 0 \<le> minor) then
                  (case send_error e h1 BAD_REQUEST
                          (Some (S ''Invalid CMIT version ('' @ tl (dropWhile (\<lambda>c. c \<noteq> 47) (last words))
                                 @ S '')'')) of
                     (h2, Inl err2) \<Rightarrow> (h2, Inl err2)
                   | (h2, Inr _) \<Rightarrow> (h2, Inr (PBool False)))
                else if length words = 2
                  then (h1\<lparr>request_version := last words, command := Some (words ! 0)\<rparr>,
                        Inr (PBool True))
                else (h1\<lparr>request_version := last words\<rparr>, Inl NameError))
         else (h1, Inr PNone))"


text \<open>
  \<open>repr\<close> of a \<open>str\<close> whose characters are below \<open>256\<close>: single quotes unless the text
  holds one and no double quote; the quote and the backslash are escaped, tab, newline
  and return have short escapes, and the unprintable characters are written \<open>\xhh\<close>.
\<close>

definition repr_char :: "nat \<Rightarrow> nat \<Rightarrow> pystr" where
  "repr_char q c =
     (if c = q \<or> c = 92 then [92, c]
      else if c = 9 then [92, 116]
      else if c = 10 then [92, 110]
      else if c = 13 then [92, 114]
      else if c < 32 \<or> (127 \<le> c \<and> c \<le> 160) \<or> c = 173
        then [92, 120, hex_digit (c div 16 mod 16), hex_digit (c mod 16)]
      else [c])"

definition repr :: "pystr \<Rightarrow> pystr" where
  "repr s =
     (let q = (if 39 \<in> set s \<and> 34 \<notin> set s then 34 else 39)
      in [q] @ concat (map (repr_char q) s) @ [q])"

text \<open>
  \<open>parse_body\<close>: the blank line and the message line, decoded as Latin-1. Only a
  \<open>JSONDecodeError\<close> of the codec is answered with an error response.
\<close>

definition parse_body :: "server_env \<Rightarrow> handler \<Rightarrow> handler \<times> (error + pyval)" where
  "parse_body e h =
     (let (spacer, rest) = readline (MAXLINE + 1) (rfile h);
          h1 = h\<lparr>request_msg := None, rfile := rest\<rparr>
      in if latin1_decode spacer \<noteq> [13, 10] then
           (case send_error e h1 BAD_REQUEST (Some (S ''Invalid request body'')) of
              (h2, Inl err) \<Rightarrow> (h2, Inl err)
            | (h2, Inr _) \<Rightarrow> (h2, Inr (PBool False)))
         else
           (let (msg_line, rest2) = readline (MAXLINE + 1) (rfile h1);
                h2 = h1\<lparr>rfile := rest2\<rparr>
            in if latin1_decode msg_line = [13, 10] then
                 (case send_error e h2 BAD_REQUEST (Some (S ''Invalid request body'')) of
                    (h3, Inl err) \<Rightarrow> (h3, Inl err)
                  | (h3, Inr _) \<Rightarrow> (h3, Inr (PBool False)))
               else
                 (case parse_message (server_now e) (PStr (latin1_decode msg_line)) of
                    Inl err \<Rightarrow>
                      if err = JSONDecodeError then
                        (case send_error e h2 BAD_REQUEST (Some (S ''Malformed request body'')) of
                           (h3, Inl err3) \<Rightarrow> (h3, Inl err3)
                         | (h3, Inr _) \<Rightarrow> (h3, Inr (PBool False)))
                      else (h2, Inl err)
                  | Inr m \<Rightarrow> (h2\<lparr>request_msg := Some m\<rparr>, Inr (PBool True)))))"

text \<open>
  The command methods \<open>do_<command>\<close> of a handler class: a table from the command to the
  method.
\<close>

type_synonym methods = "pystr \<Rightarrow> (server_env \<Rightarrow> handler \<Rightarrow> handler \<times> (error + unit)) option"

text \<open>Truth of a returned value, for \<open>if not self.parse_request(): return\<close>.\<close>

definition truthy :: "pyval \<Rightarrow> bool" where
  "truthy v = (case v of PBool b \<Rightarrow> b | PNone \<Rightarrow> False | _ \<Rightarrow> True)"

definition handle_one_request :: "methods \<Rightarrow> server_env \<Rightarrow> handler \<Rightarrow> handler \<times> (error + unit)" where
  "handle_one_request ms e h =
     (let (raw, rest) = readline (MAXLINE + 1) (rfile h);
          h1 = h\<lparr>raw_request_line := raw, rfile := rest\<rparr>
      in if MAXLINE < length raw then
           send_error e (h1\<lparr>request_line := [], request_version := [], command := Some []\<rparr>)
             BAD_REQUEST None
         else if raw = [] then (h1\<lparr>close_connection := True\<rparr>, Inr ())
         else
           (case parse_request e h1 of
              (h2, Inl err) \<Rightarrow> (h2, Inl err)
            | (h2, Inr ok) \<Rightarrow>
                if \<not> truthy ok then (h2, Inr ())
                else
                  (case command h2 of
                     None \<Rightarrow> (h2, Inl TypeError)
                   | Some cmd \<Rightarrow>
                       (case ms cmd of
                          None \<Rightarrow>
                            send_error e h2 NOT_IMPLEMENTED
                              (Some (S ''Unsupported method ('' @ repr cmd @ S '')''))
                        | Some method \<Rightarrow>
                            (case parse_body e h2 of
                               (h3, Inl err) \<Rightarrow> (h3, Inl err)
                             | (h3, Inr ok2) \<Rightarrow>
                                 if \<not> truthy ok2 then (h3, Inr ()) else method e h3)))))"

text \<open>
  \<open>handle\<close>: one request, and further ones while \<open>close_connection\<close> is not set. An
  exception ends the loop and leaves the handler.
\<close>

partial_function (option) handle_loop ::
  "methods \<Rightarrow> server_env \<Rightarrow> handler \<Rightarrow> (handler \<times> (error + unit)) option" where
  "handle_loop ms e h =
     (if close_connection h then Some (h, Inr ())
      else
        (case handle_one_request ms e h of
           (h1, Inl err) \<Rightarrow> Some (h1, Inl err)
         | (h1, Inr _) \<Rightarrow> handle_loop ms e h1))"

definition handle :: "methods \<Rightarrow> server_env \<Rightarrow> handler \<Rightarrow> (handler \<times> (error + unit)) option" where
  "handle ms e h =
     (case handle_one_request ms e (h\<lparr>close_connection := True\<rparr>) of
        (h1, Inl err) \<Rightarrow> Some (h1, Inl err)
      | (h1, Inr _) \<Rightarrow> handle_loop ms e h1)"

text \<open>
  \<open>cmit_response\<close> and the commands of \<open>SimpleCMITRequestHandler\<close>: the status line, the
  blank line and the encoded message of the method's result. Before the method runs,
  the wrapper formats \<open>str(ref.msg)\<close> for its debug record, which raises when the
  request message cannot be serialised.
\<close>

definition cmit_response ::
  "(server_env \<Rightarrow> handler \<Rightarrow> error + (CMITStatus \<times> message))
     \<Rightarrow> server_env \<Rightarrow> handler \<Rightarrow> handler \<times> (error + unit)" where
  "cmit_response func e h =
     (case (case request_msg h of None \<Rightarrow> Inr (S ''None'') | Some m0 \<Rightarrow> as_string m0) of
        Inl err \<Rightarrow> (h, Inl err)
      | Inr logged \<Rightarrow>
          (case func e h of
             Inl err \<Rightarrow> (h, Inl err)
           | Inr (st, m) \<Rightarrow>
               (case call_message m of
                  Inl err \<Rightarrow> (h, Inl err)
                | Inr b \<Rightarrow>
                    (case send_response h st None of
                       (h1, Inl err) \<Rightarrow> (h1, Inl err)
                     | (h1, Inr _) \<Rightarrow>
                         (case end_response_line h1 of
                            (h2, Inl err) \<Rightarrow> (h2, Inl err)
                          | (h2, Inr _) \<Rightarrow>
                              (wfile_write h2 (b @ [CHR 0x0D, CHR 0x0A]), Inr ()))))))"

definition do_PING :: "server_env \<Rightarrow> handler \<Rightarrow> handler \<times> (error + unit)" where
  "do_PING = cmit_response (\<lambda>e h.
     case request_msg h of None \<Rightarrow> Inl TypeError | Some m \<Rightarrow> Inr (OK, m))"

definition reply_with :: "pyval \<Rightarrow> CMITStatus \<Rightarrow> server_env \<Rightarrow> handler \<Rightarrow> error + (CMITStatus \<times> message)" where
  "reply_with body st e h =
     (case request_msg h of
        None \<Rightarrow> Inl AttributeError
      | Some m \<Rightarrow>
          ebind (topic m) (\<lambda>t.
          ebind (CMITMessage (server_now e) (PStr t) (msg_id m)) (\<lambda>m1.
          ebind (set_payload m1 body) (\<lambda>m2. Inr (st, m2)))))"

definition do_EXECUTE :: "server_env \<Rightarrow> handler \<Rightarrow> handler \<times> (error + unit)" where
  "do_EXECUTE = cmit_response (reply_with (PDict [(S ''res'', PStr (S ''Processed''))]) ACCEPTED)"

definition do_POLL :: "server_env \<Rightarrow> handler \<Rightarrow> handler \<times> (error + unit)" where
  "do_POLL = cmit_response (reply_with (PDict [(S ''depth'', PInt 0)]) OK)"

definition simple_methods :: methods where
  "simple_methods cmd =
     (if cmd = S ''PING'' then Some do_PING
      else if cmd = S ''EXECUTE'' then Some do_EXECUTE
      else if cmd = S ''POLL'' then Some do_POLL
      else None)"

section \<open>Requests and sessions (cmit/requests/models.py, sessions.py, adapters.py)\<close>

text \<open>
  A \<open>Request\<close> with the defaults of its constructor, and the \<open>PreparedRequest\<close> built
  from it. A socket path is given as \<open>str\<close> or \<open>bytes\<close>.
\<close>

record request =
  rq_command :: pystr
  rq_socket_path :: pyval
  rq_topic :: pyval
  rq_data :: pyval
  rpc_args :: "pyval list"
  rpc_kwargs :: "(pystr \<times> pyval) list"

definition Request ::
  "pystr \<Rightarrow> pyval \<Rightarrow> pyval option \<Rightarrow> pyval option \<Rightarrow> pyval list option
     \<Rightarrow> (pystr \<times> pyval) list option \<Rightarrow> request" where
  "Request cmd sp tp data args kwargs =
     \<lparr>rq_command = cmd, rq_socket_path = sp,
      rq_topic = (case tp of None \<Rightarrow> PStr (S ''topic.null'') | Some t \<Rightarrow> t),
      rq_data = (case data of None \<Rightarrow> PList [] | Some d \<Rightarrow> d),
      rpc_args = (case args of None \<Rightarrow> [] | Some a \<Rightarrow> a),
      rpc_kwargs = (case kwargs of None \<Rightarrow> [] | Some k \<Rightarrow> k)\<rparr>"

record prepared_request =
  p_command :: "pystr option"
  p_socket_path :: "pystr option"
  p_topic :: "pyval"
  p_payload :: "pystr option"
  p_msg_id :: "pyval option"

definition PreparedRequest :: prepared_request where
  "PreparedRequest =
     \<lparr>p_command = None, p_socket_path = None, p_topic = PNone, p_payload = None,
      p_msg_id = None\<rparr>"

definition prepare_command :: "prepared_request \<Rightarrow> pystr \<Rightarrow> prepared_request" where
  "prepare_command p cmd = p\<lparr>p_command := Some cmd\<rparr>"

text \<open>
  \<open>prepare_socket_path\<close>. The final \<open>requote_uri(urlunparse(...))\<close> belongs to other
  libraries and is the parameter \<open>unparse\<close>, applied to the scheme and the path;
  \<open>str.lower\<close> is the parameter \<open>lower\<close>.
\<close>

definition prepare_socket_path ::
  "(pystr \<Rightarrow> pystr) \<Rightarrow> (pystr \<Rightarrow> pystr \<Rightarrow> pystr) \<Rightarrow> env \<Rightarrow> prepared_request \<Rightarrow> pyval
     \<Rightarrow> error + prepared_request" where
  "prepare_socket_path lower unparse e p sp =
     ebind (case sp of
              PBytes b \<Rightarrow> utf8_decode b
            | PStr s \<Rightarrow> Inr s
            | _ \<Rightarrow> Inl TypeError) (\<lambda>s0.
       let s = strip s0
       in if s = [] then Inl ValueError
          else if 58 \<in> set s \<and> \<not> prefix (S ''cmit'') (lower s) then Inl ValueError
          else
            (case parse_socket_path s of
               Inl err \<Rightarrow> Inl RequestsInvalidSocketPath
             | Inr parsed \<Rightarrow>
                 (case scheme parsed of
                    None \<Rightarrow> Inl MissingSchema
                  | Some sc \<Rightarrow>
                      if sc = [] then Inl MissingSchema
                      else
                        (case (path parsed, file_type parsed) of
                           (Some pa, Some ft) \<Rightarrow>
                             if pa = [] then Inl RequestsInvalidSocketPath
                             else if path_exists e (pa @ ft)
                               then Inr (p\<lparr>p_socket_path := Some (unparse sc (pa @ ft))\<rparr>)
                             else Inl RequestsInvalidSocketPath
                         | _ \<Rightarrow> Inl RequestsInvalidSocketPath))))"

definition prepare_topic :: "prepared_request \<Rightarrow> pyval \<Rightarrow> error + prepared_request" where
  "prepare_topic p tp =
     (case tp of
        PFun r \<Rightarrow>
          (case r of
             PBytes b \<Rightarrow>
               if list_all (\<lambda>c. (of_char c :: nat) < 128) b
               then Inr (p\<lparr>p_topic := PStr (latin1_decode b)\<rparr>) else Inl UnicodeDecodeError
           | _ \<Rightarrow> Inr (p\<lparr>p_topic := r\<rparr>))
      | PBytes b \<Rightarrow>
          if list_all (\<lambda>c. (of_char c :: nat) < 128) b
          then Inr (p\<lparr>p_topic := PStr (latin1_decode b)\<rparr>) else Inl UnicodeDecodeError
      | _ \<Rightarrow> Inr (p\<lparr>p_topic := tp\<rparr>))"

definition prepare_payload ::
  "prepared_request \<Rightarrow> pyval \<Rightarrow> pyval list \<Rightarrow> (pystr \<times> pyval) list \<Rightarrow> error + prepared_request" where
  "prepare_payload p data args kwargs =
     ebind (dumps (PDict [(S ''args'', PList args), (S ''kwargs'', PDict kwargs),
                          (S ''data'', data)]))
       (\<lambda>s. Inr (p\<lparr>p_payload := Some s\<rparr>))"

definition prepare_request ::
  "(pystr \<Rightarrow> pystr) \<Rightarrow> (pystr \<Rightarrow> pystr \<Rightarrow> pystr) \<Rightarrow> env \<Rightarrow> request \<Rightarrow> error + prepared_request" where
  "prepare_request lower unparse e rq =
     ebind (prepare_socket_path lower unparse e
              (prepare_command PreparedRequest (rq_command rq)) (rq_socket_path rq)) (\<lambda>p1.
     ebind (prepare_topic p1 (rq_topic rq)) (\<lambda>p2.
       prepare_payload p2 (rq_data rq) (rpc_args rq) (rpc_kwargs rq)))"

text \<open>
  \<open>Session.request\<close> up to the prepared request it hands to \<open>send\<close>: the command is
  upper-cased when the \<open>Request\<close> is built.
\<close>

definition session_prepare ::
  "(pystr \<Rightarrow> pystr) \<Rightarrow> (pystr \<Rightarrow> pystr) \<Rightarrow> (pystr \<Rightarrow> pystr \<Rightarrow> pystr) \<Rightarrow> env
     \<Rightarrow> pystr \<Rightarrow> pyval \<Rightarrow> pyval option \<Rightarrow> pyval option \<Rightarrow> pyval list option
     \<Rightarrow> (pystr \<times> pyval) list option \<Rightarrow> error + prepared_request" where
  "session_prepare upper lower unparse e cmd sp tp data args kwargs =
     prepare_request lower unparse e (Request (upper cmd) sp tp data args kwargs)"

text \<open>
  \<open>CMITAdapter.send\<close> up to the response of the connection: the connection for the
  request's socket path is connected, the request is issued with the prepared command,
  topic and payload, and the response is read. The connection is an object of the
  adapter's store, so what the calls change is seen through the pool as well.
\<close>

definition adapter_send ::
  "(pystr \<Rightarrow> pystr) \<Rightarrow> env \<Rightarrow> adapter \<Rightarrow> prepared_request
     \<Rightarrow> adapter \<times> (error + (pyval \<times> response))" where
  "adapter_send upper e a p =
     (case (p_socket_path p, p_command p, p_payload p) of
        (Some sp, Some cmd, Some pl) \<Rightarrow>
          (case get_connection e a sp of
             (a1, Inl err) \<Rightarrow> (a1, Inl err)
           | (a1, Inr r) \<Rightarrow>
               (case connect e (objects a1 ! r) of
                  (c1, Inl err) \<Rightarrow> (a1\<lparr>objects := (objects a1)[r := c1]\<rparr>, Inl err)
                | (c1, Inr _) \<Rightarrow>
                    (case request upper e c1 cmd (p_topic p) (PStr pl)
                            (Some (PStr (hex32 (randbits e)))) of
                       (c2, Inl err) \<Rightarrow> (a1\<lparr>objects := (objects a1)[r := c2]\<rparr>, Inl err)
                     | (c2, Inr i) \<Rightarrow>
                         (case getresponse e c2 of
                            (c3, Inl err) \<Rightarrow> (a1\<lparr>objects := (objects a1)[r := c3]\<rparr>, Inl err)
                          | (c3, Inr resp) \<Rightarrow>
                              (a1\<lparr>objects := (objects a1)[r := c3]\<rparr>, Inr (i, resp))))))
      | _ \<Rightarrow> (a, Inl TypeError))"

section \<open>Example values\<close>

text \<open>\<open>str.upper\<close> on ASCII letters, as an instance of the parameter \<open>upper\<close>.\<close>

definition upper_ascii :: "nat \<Rightarrow> nat" where
  "upper_ascii c = (if 97 \<le> c \<and> c \<le> 122 then c - 32 else c)"

text \<open>
  A reply the peer has ready, an environment, an idle connection, the same connection
  after \<open>request('ping', 't1', 'hello')\<close>, and the response it then reads.
\<close>

definition demo_reply :: bytes where
  "demo_reply = ''CMIT/1.0 200 OK'' @ [CHR 0x0D, CHR 0x0A, CHR 0x0D, CHR 0x0A]
     @ ''eyJfaWQiOiAiMDEiLCAidGltZXN0YW1wIjogMTcwMDAwMDAwMC41LCAidG9waWMiOiAidDEiLCAicGF5bG9hZCI6ICJoZWxsbyJ9''
     @ [CHR 0x0D, CHR 0x0A]"

definition demo_env :: env where
  "demo_env =
     \<lparr>now = PFloat (S ''1700000000.5''), randbits = 255,
      connect_result = Some \<lparr>sent = [], incoming = demo_reply, writable = True\<rparr>,
      path_exists = (\<lambda>p. p = S ''/tmp/cmitp.sock'')\<rparr>"

definition demo_connection :: connection where
  "demo_connection =
     \<lparr>sock = Some \<lparr>sent = [], incoming = demo_reply, writable = True\<rparr>, cstate = CS_IDLE,
      held_response = None, messages = [], socket_fp = S ''/tmp/cmitp.sock''\<rparr>"

definition demo_sent :: connection where
  "demo_sent =
     demo_connection\<lparr>cstate := CS_REQ_SENT,
        messages := [(PStr (S ''000000000000000000000000000000ff''),
                      \<lparr>timestamp = PFloat (S ''1700000000.5''),
                       msg_id = PStr (S ''000000000000000000000000000000ff''),
                       stored_topic = ''t1'', stored_payload = ''hello''\<rparr>)],
        sock := Some \<lparr>sent = ''PING CMIT/1.0'' @ [CHR 0x0D, CHR 0x0A, CHR 0x0D, CHR 0x0A]
          @ ''eyJfaWQiOiAiMDAwMDAwMDAwMDAwMDAwMDAwMDAwMDAwMDAwMDAwZmYiLCAidGltZXN0YW1wIjogMTcwMDAwMDAwMC41LCAidG9waWMiOiAidDEiLCAicGF5bG9hZCI6ICJoZWxsbyJ9''
          @ [CHR 0x0D, CHR 0x0A], incoming = demo_reply, writable = True\<rparr>\<rparr>"

definition demo_response :: response where
  "demo_response =
     \<lparr>fp = Some [], will_close = True, version = PInt 10, status = PInt 200,
      reason = S ''OK'',
      msg = Some \<lparr>timestamp = PFloat (S ''1700000000.5''), msg_id = PStr (S ''01''),
                   stored_topic = ''t1'', stored_payload = ''hello''\<rparr>\<rparr>"

definition demo_message :: message where
  "demo_message =
     \<lparr>timestamp = PFloat (S ''1700000000.5''), msg_id = PStr (S ''01''),
      stored_topic = ''t1'', stored_payload = ''hello''\<rparr>"

section \<open>Properties of the protocol version\<close>

text \<open>
  The versions of the specification: \<open>CMIT/<major>.<minor>\<close> with one to three decimal
  digits in each part and a major number below two.
\<close>

definition digits3 :: "pystr \<Rightarrow> bool" where
  "digits3 d = (1 \<le> length d \<and> length d \<le> 3 \<and> list_all is_digit d)"

definition version_ok :: "pystr \<Rightarrow> bool" where
  "version_ok v =
     (\<exists>ma mi. v = S ''CMIT/'' @ ma @ [46] @ mi \<and> digits3 ma \<and> digits3 mi \<and> nat_of_digits ma < 2)"

definition demo_handler :: "bytes \<Rightarrow> handler" where
  "demo_handler input =
     \<lparr>rfile = input, wfile = [], close_connection = False, raw_request_line = [],
      request_line = [], request_version = [], command = None, request_msg = None,
      response_buffer = None\<rparr>"

definition demo_server_env :: server_env where
  "demo_server_env =
     \<lparr>server_now = PFloat (S ''1700000000.5''), clock = 1700000000, server_randbits = 255\<rparr>"

definition reply_1_1 :: bytes where
  "reply_1_1 = ''CMIT/1.1 200 OK'' @ [CHR 0x0D, CHR 0x0A, CHR 0x0D, CHR 0x0A]
     @ ''eyJfaWQiOiAiMDEiLCAidGltZXN0YW1wIjogMTcwMDAwMDAwMC41LCAidG9waWMiOiAidDEiLCAicGF5bG9hZCI6ICJoZWxsbyJ9''
     @ [CHR 0x0D, CHR 0x0A]"

text \<open>An environment in which two socket paths exist, and an idle connection object.\<close>

definition two_paths_env :: env where
  "two_paths_env =
     \<lparr>now = PFloat (S ''1700000000.5''), randbits = 255,
      connect_result = Some \<lparr>sent = [], incoming = demo_reply, writable = True\<rparr>,
      path_exists = (\<lambda>p. p = S ''/tmp/a.sock'' \<or> p = S ''/tmp/b.sock'')\<rparr>"

definition idle_connection :: "pystr \<Rightarrow> connection" where
  "idle_connection p =
     \<lparr>sock = None, cstate = CS_IDLE, held_response = None, messages = [], socket_fp = p\<rparr>"


section \<open>Properties of the session mount table\<close>

subsection \<open>Lemmas on the ordered dictionary\<close>

lemma od_del_filter: "od_del k d = filter (\<lambda>e. fst e \<noteq> k) d"
  by (induction d) auto

lemma od_set_new: "k \<notin> fst ` set d \<Longrightarrow> od_set k v d = d @ [(k, v)]"
  by (induction d) auto

lemma od_set_keys:
  "map fst (od_set k v d) = (if k \<in> set (map fst d) then map fst d else map fst d @ [k])"
  by (induction d) force+

lemma od_set_distinct: "distinct (map fst d) \<Longrightarrow> distinct (map fst (od_set k v d))"
  by (simp add: od_set_keys)

lemma map_of_filter_keys:
  "k \<notin> K \<Longrightarrow> map_of (filter (\<lambda>e. fst e \<notin> K) d) k = map_of d k"
  by (induction d) auto

lemma move_keys_eq:
  "distinct ks \<Longrightarrow> set ks \<subseteq> fst ` set d \<Longrightarrow>
   move_keys ks d =
     Inr (filter (\<lambda>e. fst e \<notin> set ks) d @ map (\<lambda>k. (k, the (map_of d k))) ks)"
proof (induction ks arbitrary: d)
  case Nil
  then show ?case by simp
next
  case (Cons k ks)
  from Cons.prems have "k \<in> fst ` set d" by simp
  then have "map_of d k \<noteq> None" by (simp add: map_of_eq_None_iff)
  then obtain v where v: "map_of d k = Some v" by blast
  let ?d' = "od_set k v (od_del k d)"
  have notin: "k \<notin> fst ` set (od_del k d)"
    by (auto simp: od_del_filter)
  have d': "?d' = filter (\<lambda>e. fst e \<noteq> k) d @ [(k, v)]"
    using notin by (simp add: od_set_new od_del_filter)
  have sub: "set ks \<subseteq> fst ` set ?d'"
    using Cons.prems by (auto simp: d' image_iff)
  have dist: "distinct ks" and kks: "k \<notin> set ks"
    using Cons.prems by auto
  have mo: "\<And>k'. k' \<in> set ks \<Longrightarrow> map_of ?d' k' = map_of d k'"
  proof -
    fix k' assume "k' \<in> set ks"
    then have ne: "k' \<noteq> k" using kks by auto
    have "map_of ?d' k' = map_of (filter (\<lambda>e. fst e \<notin> {k}) d) k'"
      using ne by (simp add: d' map_add_def split: option.splits)
    also have "\<dots> = map_of d k'"
      using ne by (intro map_of_filter_keys) simp
    finally show "map_of ?d' k' = map_of d k'" .
  qed
  have "move_keys (k # ks) d = move_keys ks ?d'"
    by (simp add: od_pop_def v)
  also have "\<dots> = Inr (filter (\<lambda>e. fst e \<notin> set ks) ?d' @ map (\<lambda>k. (k, the (map_of ?d' k))) ks)"
    using Cons.IH [OF dist sub] .
  also have "filter (\<lambda>e. fst e \<notin> set ks) ?d' = filter (\<lambda>e. fst e \<notin> set (k # ks)) d @ [(k, v)]"
    using kks by (simp add: d' conj_commute)
  also have "map (\<lambda>k. (k, the (map_of ?d' k))) ks = map (\<lambda>k. (k, the (map_of d k))) ks"
    using mo by simp
  finally show ?case by (simp add: v)
qed

lemma rebuild_filter:
  "distinct (map fst d) \<Longrightarrow>
   map (\<lambda>k. (k, the (map_of d k))) (filter P (map fst d)) = filter (\<lambda>e. P (fst e)) d"
proof (induction d)
  case Nil
  then show ?case by simp
next
  case (Cons e d)
  obtain k v where e: "e = (k, v)" by (cases e)
  have "\<And>k'. k' \<in> set (filter P (map fst d)) \<Longrightarrow> k' \<noteq> k"
    using Cons.prems by (auto simp: e)
  then have "map (\<lambda>k'. (k', the (map_of (e # d) k'))) (filter P (map fst d))
           = map (\<lambda>k'. (k', the (map_of d k'))) (filter P (map fst d))"
    by (intro map_cong) (auto simp: e)
  with Cons show ?case by (simp add: e)
qed

lemma mount_eq:
  assumes "distinct (map fst d)"
  shows "mount p a d =
           Inr (filter (\<lambda>e. length p \<le> length (fst e)) (od_set p a d) @
                filter (\<lambda>e. length (fst e) < length p) (od_set p a d))"
proof -
  let ?d1 = "od_set p a d"
  let ?ks = "filter (\<lambda>k. length k < length p) (map fst ?d1)"
  have d1: "distinct (map fst ?d1)" using assms by (rule od_set_distinct)
  have "move_keys ?ks ?d1 =
          Inr (filter (\<lambda>e. fst e \<notin> set ?ks) ?d1 @ map (\<lambda>k. (k, the (map_of ?d1 k))) ?ks)"
    using d1 by (intro move_keys_eq) auto
  moreover have "filter (\<lambda>e. fst e \<notin> set ?ks) ?d1 = filter (\<lambda>e. length p \<le> length (fst e)) ?d1"
    by (intro filter_cong) auto
  moreover have "map (\<lambda>k. (k, the (map_of ?d1 k))) ?ks = filter (\<lambda>e. length (fst e) < length p) ?d1"
    using d1 by (rule rebuild_filter)
  ultimately show ?thesis by (simp add: mount_def Let_def)
qed

lemma od_set_longer_first:
  "longer_first d \<Longrightarrow>
   longer_first (filter (\<lambda>e. length p \<le> length (fst e)) (od_set p a d) @
                 filter (\<lambda>e. length (fst e) < length p) (od_set p a d))"
proof (cases "p \<in> set (map fst d)")
  case True
  assume lf: "longer_first d"
  have "map fst (od_set p a d) = map fst d" using True by (simp add: od_set_keys)
  moreover have "\<And>xs::(pystr \<times> 'a) list. map (\<lambda>e. length (fst e)) xs = map length (map fst xs)"
    by simp
  ultimately have "map (\<lambda>e. length (fst e)) (od_set p a d) = map (\<lambda>e. length (fst e)) d"
    by metis
  moreover have "\<And>xs::(pystr \<times> 'a) list. longer_first xs = sorted_wrt (\<lambda>m n. n \<le> m) (map (\<lambda>e. length (fst e)) xs)"
    by (simp add: longer_first_def sorted_wrt_map)
  ultimately have "longer_first (od_set p a d)" using lf by simp
  then show ?thesis
    unfolding longer_first_def
    by (auto simp: sorted_wrt_append intro: sorted_wrt_filter)
next
  case False
  assume lf: "longer_first d"
  have "od_set p a d = d @ [(p, a)]" using False by (simp add: od_set_new)
  with lf show ?thesis
    unfolding longer_first_def
    by (auto simp: sorted_wrt_append intro: sorted_wrt_filter)
qed

lemma mount_invariant:
  assumes "distinct (map fst d)" "longer_first d"
  shows "\<exists>d'. mount p a d = Inr d' \<and> distinct (map fst d') \<and> longer_first d'"
proof -
  let ?d1 = "od_set p a d"
  let ?d' = "filter (\<lambda>e. length p \<le> length (fst e)) ?d1 @ filter (\<lambda>e. length (fst e) < length p) ?d1"
  have d1: "distinct (map fst ?d1)" using assms(1) by (rule od_set_distinct)
  have "distinct (map fst ?d')"
    using d1 by (auto simp: distinct_map_filter)
  then show ?thesis
    using mount_eq [OF assms(1)] od_set_longer_first [OF assms(2)] by blast
qed

lemma mount_all_invariant:
  "distinct (map fst d) \<Longrightarrow> longer_first d \<Longrightarrow>
   \<exists>d'. mount_all ms d = Inr d' \<and> distinct (map fst d') \<and> longer_first d'"
proof (induction ms arbitrary: d)
  case Nil
  then show ?case by simp
next
  case (Cons m ms)
  obtain p a where m: "m = (p, a)" by (cases m)
  from mount_invariant [OF Cons.prems] obtain d1
    where "mount p a d = Inr d1" "distinct (map fst d1)" "longer_first d1" by blast
  with Cons.IH [of d1] show ?case by (simp add: m)
qed

lemma first_match_longest:
  "longer_first d \<Longrightarrow> first_match lower uri d = Some (p, a) \<Longrightarrow>
   (p', a') \<in> set d \<Longrightarrow> prefix (lower p') (lower uri) \<Longrightarrow> length p' \<le> length p"
proof (induction d)
  case Nil
  then show ?case by simp
next
  case (Cons e d)
  obtain k v where e: "e = (k, v)" by (cases e)
  show ?case
  proof (cases "prefix (lower k) (lower uri)")
    case True
    with Cons.prems show ?thesis by (auto simp: e longer_first_def)
  next
    case False
    with Cons show ?thesis by (auto simp: e longer_first_def)
  qed
qed

lemma first_match_mem:
  "first_match lower uri d = Some (p, a) \<Longrightarrow> (p, a) \<in> set d \<and> prefix (lower p) (lower uri)"
  by (induction d) (auto split: if_splits)

subsection \<open>The mount table keeps longer prefixes first\<close>

text \<open>
  Claim C6. Whatever sequence of \<open>mount\<close> calls a session has seen, the calls raise
  nothing and leave the table with longer prefixes before shorter ones; the entry
  \<open>get_adapter\<close> resolves a locator to is then at least as long as every other entry
  whose prefix matches it. A fresh session (which mounts \<open>cmit://\<close> itself) on which
  \<open>cmit://\<close> and then \<open>cmit://special/\<close> are mounted resolves every locator matching
  both to the adapter of \<open>cmit://special/\<close>.
\<close>

theorem mount_longest_prefix_first:
  "(\<exists>d. mount_all ms [] = Inr d \<and> longer_first d \<and>
        (\<forall>uri p a p' a'.
           first_match lower uri d = Some (p, a) \<longrightarrow>
           (p', a') \<in> set d \<longrightarrow> prefix (lower p') (lower uri) \<longrightarrow>
             get_adapter lower d uri = Inr a \<and> length p' \<le> length p)) \<and>
   (\<forall>uri. prefix (lower (S ''cmit://'')) (lower uri) \<longrightarrow>
          prefix (lower (S ''cmit://special/'')) (lower uri) \<longrightarrow>
          (\<exists>d. mount_all [(S ''cmit://'', a0), (S ''cmit://'', a1), (S ''cmit://special/'', a2)] []
                 = Inr d \<and> get_adapter lower d uri = Inr a2))"
proof (intro conjI allI impI)
  have "distinct (map fst ([] :: 'a odict))" "longer_first ([] :: 'a odict)"
    by (simp_all add: longer_first_def)
  from mount_all_invariant [OF this, of ms] obtain d
    where d: "mount_all ms [] = Inr d" "longer_first d" by blast
  have "\<forall>uri p a p' a'.
           first_match lower uri d = Some (p, a) \<longrightarrow>
           (p', a') \<in> set d \<longrightarrow> prefix (lower p') (lower uri) \<longrightarrow>
             get_adapter lower d uri = Inr a \<and> length p' \<le> length p"
    using first_match_longest [OF d(2)] by (auto simp: get_adapter_def)
  with d show "\<exists>d. mount_all ms [] = Inr d \<and> longer_first d \<and>
        (\<forall>uri p a p' a'.
           first_match lower uri d = Some (p, a) \<longrightarrow>
           (p', a') \<in> set d \<longrightarrow> prefix (lower p') (lower uri) \<longrightarrow>
             get_adapter lower d uri = Inr a \<and> length p' \<le> length p)"
    by blast
next
  fix uri
  assume "prefix (lower (S ''cmit://special/'')) (lower uri)"
  moreover have "mount_all [(S ''cmit://'', a0), (S ''cmit://'', a1), (S ''cmit://special/'', a2)] []
      = Inr [(S ''cmit://special/'', a2), (S ''cmit://'', a1)]"
    by (simp add: mount_def od_pop_def)
  ultimately show "\<exists>d. mount_all [(S ''cmit://'', a0), (S ''cmit://'', a1), (S ''cmit://special/'', a2)] []
                 = Inr d \<and> get_adapter lower d uri = Inr a2"
    by (simp add: get_adapter_def)
qed

theorem mount_longest_prefix_first_witness:
  "mount_all [(S ''cmit://'', 0::nat), (S ''cmit://special/'', 1), (S ''unix://'', 2)] []
     = Inr [(S ''cmit://special/'', 1), (S ''cmit://'', 0), (S ''unix://'', 2)] \<and>
   first_match (map lower_ascii) (S ''CMIT://Special/a.sock'')
       [(S ''cmit://special/'', 1::nat), (S ''cmit://'', 0), (S ''unix://'', 2)]
     = Some (S ''cmit://special/'', 1) \<and>
   (S ''cmit://'', 0) \<in> set [(S ''cmit://special/'', 1::nat), (S ''cmit://'', 0), (S ''unix://'', 2)] \<and>
   prefix (map lower_ascii (S ''cmit://'')) (map lower_ascii (S ''CMIT://Special/a.sock'')) \<and>
   get_adapter (map lower_ascii) [(S ''cmit://special/'', 1::nat), (S ''cmit://'', 0), (S ''unix://'', 2)]
       (S ''CMIT://Special/a.sock'') = Inr 1 \<and>
   length (S ''cmit://'') \<le> length (S ''cmit://special/'')"
  using mount_longest_prefix_first
    [of "[(S ''cmit://'', 0::nat), (S ''cmit://special/'', 1), (S ''unix://'', 2)]" "map lower_ascii"]
  by (simp add: mount_def od_pop_def get_adapter_def lower_ascii_def)

section \<open>Properties of the UTF-8 decoder\<close>

lemma isl_ebind_Inr [simp]: "isl (ebind r (\<lambda>x. Inr (g x))) = isl r"
  by (cases r) (simp_all add: ebind_def)

lemma utf8_points_well_formed: "(\<not> isl (utf8_points bs)) = well_formed_utf8 bs"
proof (induction bs rule: utf8_points.induct)
  case 1
  then show ?case by simp
next
  case (2 b0 bs)
  consider (a) "b0 < 128" | (b) "194 \<le> b0" "b0 < 224" | (c) "224 \<le> b0" "b0 < 240"
    | (d) "240 \<le> b0" "b0 < 245" | (e) "128 \<le> b0" "b0 < 194" | (f) "245 \<le> b0"
    by linarith
  then show ?case
  proof cases
    case a
    with 2 show ?thesis by (simp add: in_range_def)
  next
    case b
    show ?thesis
    proof (cases bs)
      case Nil
      with b show ?thesis by (simp add: in_range_def)
    next
      case (Cons b1 r1)
      with b 2(2) [of b1 r1] show ?thesis
        by (simp add: in_range_def cont_def) linarith
    qed
  next
    case c
    show ?thesis
    proof (cases bs)
      case Nil
      with c show ?thesis by (simp add: in_range_def)
    next
      case l1: (Cons b1 r1)
      show ?thesis
      proof (cases r1)
        case Nil
        with c l1 show ?thesis by (simp add: in_range_def)
      next
        case (Cons b2 r2)
        with c l1 2(3) [of b1 r1 b2 r2] show ?thesis
          by (simp add: in_range_def cont_def) linarith
      qed
    qed
  next
    case d
    show ?thesis
    proof (cases bs)
      case Nil
      with d show ?thesis by (simp add: in_range_def)
    next
      case l1: (Cons b1 r1)
      show ?thesis
      proof (cases r1)
        case Nil
        with d l1 show ?thesis by (simp add: in_range_def)
      next
        case l2: (Cons b2 r2)
        show ?thesis
        proof (cases r2)
          case Nil
          with d l1 l2 show ?thesis by (simp add: in_range_def)
        next
          case (Cons b3 r3)
          with d l1 l2 2(4) [of b1 r1 b2 r2 b3 r3] show ?thesis
            by (simp add: in_range_def cont_def) linarith
        qed
      qed
    qed
  next
    case e
    then show ?thesis by (simp add: in_range_def)
  next
    case f
    then show ?thesis by (simp add: in_range_def)
  qed
qed

section \<open>Properties of the client connection\<close>

subsection \<open>State of the connection across its operations\<close>

lemma getresponse_not_ready:
  "cstate c \<noteq> CS_REQ_SENT \<Longrightarrow> snd (getresponse e c) = Inl ResponseNotReady"
  by (simp add: getresponse_def Let_def split: option.splits)

lemma getresponse_state_kept:
  "cstate c \<noteq> CS_REQ_SENT \<Longrightarrow> cstate (fst (getresponse e c)) = cstate c"
  by (simp add: getresponse_def Let_def split: option.splits)

lemma send_request_busy:
  "cstate c \<noteq> CS_IDLE \<Longrightarrow>
   snd (send_request upper e c cmd tp pl i) = Inl CannotSendRequest \<and>
   cstate (fst (send_request upper e c cmd tp pl i)) = cstate c"
  by (simp add: send_request_def Let_def split: option.splits)

lemma request_busy:
  "cstate c \<noteq> CS_IDLE \<Longrightarrow>
   snd (request upper e c cmd tp pl io) = Inl CannotSendRequest \<and>
   cstate (fst (request upper e c cmd tp pl io)) = cstate c"
proof -
  assume busy: "cstate c \<noteq> CS_IDLE"
  let ?i = "case io of None \<Rightarrow> PStr (hex32 (randbits e)) | Some i \<Rightarrow> i"
  obtain c' r where sr: "send_request upper e c cmd tp pl ?i = (c', r)"
    by (cases "send_request upper e c cmd tp pl ?i")
  with send_request_busy [OF busy, of upper e cmd tp pl ?i]
  have "r = Inl CannotSendRequest" "cstate c' = cstate c" by simp_all
  with sr show ?thesis by (simp add: request_def Let_def)
qed

lemma sock_sendall_state: "cstate (fst (sock_sendall c b)) = cstate c"
  by (simp add: sock_sendall_def split: option.splits sum.splits)

lemma connect_state: "cstate (fst (connect e c)) = cstate c"
  by (simp add: connect_def split: option.splits)

lemma send_state: "cstate (fst (send e c d)) = cstate c"
  using connect_state [of e c] sock_sendall_state
  by (auto simp: send_def split: prod.splits sum.splits if_splits)

lemma end_request_ok:
  "end_request e c = (c', Inr u) \<Longrightarrow> cstate c = CS_REQ_STARTED \<and> cstate c' = CS_REQ_SENT"
  using send_state [of e "c\<lparr>cstate := CS_REQ_SENT\<rparr>" "[13, 10]"]
  by (auto simp: end_request_def split: if_splits)

lemma end_request_state:
  "cstate c = CS_REQ_STARTED \<Longrightarrow> cstate (fst (end_request e c)) = CS_REQ_SENT"
  using send_state [of e "c\<lparr>cstate := CS_REQ_SENT\<rparr>" "[13, 10]"]
  by (auto simp: end_request_def split: if_splits)

lemma sock_sendall_stateD: "sock_sendall c b = (c', r) \<Longrightarrow> cstate c' = cstate c"
  using sock_sendall_state [of c b] by simp

lemma end_request_stateD:
  "end_request e c = (c', r) \<Longrightarrow> cstate c = CS_REQ_STARTED \<Longrightarrow> cstate c' = CS_REQ_SENT"
  using end_request_state [of c e] by simp

lemma send_request_idle:
  assumes "cstate c = CS_IDLE" and "send_request upper e c cmd tp pl i = (c', r)"
  shows "cstate c' \<noteq> CS_IDLE \<and> (\<forall>u. r = Inr u \<longrightarrow> cstate c' = CS_REQ_SENT)"
  using assms
  by (auto simp: send_request_def Let_def
           split: option.splits sum.splits if_splits prod.splits
           dest!: sock_sendall_stateD end_request_stateD)

subsection \<open>Evaluation of the model on concrete values\<close>

lemma replicate_numeral_eval: "replicate (numeral k) x = x # replicate (pred_numeral k) x"
  by (simp add: numeral_eq_Suc)

lemmas codec_eval = replicate_numeral_eval Let_def
  ebind_def latin1_encode_def latin1_decode_def utf8_decode_def cont_def
  int_repr_def hex_digit_def hex4_def escape_char_def quote_def
  json_ws_def skip_ws_def is_digit_def hex_value_def hex4_value_def unescape_def
  nat_of_digits_def scan_frac_def scan_sign_def scan_exp_def scan_int_def scan_number_def
  dict_of_pairs_def json_loads_def
  b64_char_def b64encode_def b64_value_def b64decode_def
  py_isspace_def strip_def encode_def call0_def CMITMessage_def topic_def payload_def
  set_payload_def set_topic_def posix_timestamp_def as_string_def as_bytes_def call_message_def
  fromtimestamp_def jde_to_ValueError_def msg_keys_def getitem_def setitem_def decode_payload_def
  parse_message_def char_of_eq_iff

lemma split_ws_numeral_eval:
  "split_ws (numeral k) s =
     (let r = dropWhile py_isspace s
      in if r = [] then []
         else takeWhile (\<lambda>c. \<not> py_isspace c) r
                # split_ws (pred_numeral k) (dropWhile (\<lambda>c. \<not> py_isspace c) r))"
  by (simp add: numeral_eq_Suc)

lemmas client_eval = split_ws_numeral_eval
  MAXLINE_def readline_def py_int_def sendall_def client_parse_message_def CMITResponse_def
  close_conn_def isclosed_def split_status_line_def check_status_line_def read_status_def
  response_begin_def connect_def close_def sock_sendall_def send_def end_request_def hashable_def
  request_message_def send_request_def hex32_def request_def getresponse_def

lemma demo_request:
  "request (map upper_ascii) demo_env demo_connection (S ''ping'') (PStr (S ''t1''))
       (PStr (S ''hello'')) None
   = (demo_sent, Inr (PStr (S ''000000000000000000000000000000ff'')))"
  by (simp add: demo_env_def demo_connection_def demo_reply_def demo_sent_def upper_ascii_def
        codec_eval client_eval)

lemma read_final_status_eval:
  "read_final_status r =
     (case read_status r of
        (r', Inl e) \<Rightarrow> (r', Inl e)
      | (r', Inr (v, code, re)) \<Rightarrow>
          if code \<noteq> 100 then (r', Inr (v, code, re)) else read_final_status r')"
  by (rule read_final_status.simps)

lemma demo_getresponse:
  "getresponse demo_env demo_sent
   = (demo_sent\<lparr>cstate := CS_IDLE, sock := None\<rparr>, Inr demo_response)"
  by (simp add: demo_env_def demo_connection_def demo_reply_def demo_sent_def demo_response_def
        codec_eval client_eval read_final_status_eval
      cong: prod.case_cong_weak sum.case_cong_weak option.case_cong_weak list.case_cong_weak)

subsection \<open>The cycle of states\<close>

lemma getresponse_ok:
  assumes "getresponse e c = (c1, Inr r)"
  shows "cstate c = CS_REQ_SENT \<and> cstate c1 = CS_IDLE"
proof -
  have sent: "cstate c = CS_REQ_SENT"
  proof (rule ccontr)
    assume "cstate c \<noteq> CS_REQ_SENT"
    from getresponse_not_ready [OF this, of e] assms show False by simp
  qed
  from assms have "cstate c1 = CS_IDLE"
    by (auto simp: getresponse_def Let_def close_def
             split: option.splits if_splits prod.splits sum.splits)
  with sent show ?thesis by simp
qed

lemma request_ok:
  assumes "request upper e c cmd tp pl io = (c1, Inr i)"
  shows "cstate c = CS_IDLE \<and> cstate c1 = CS_REQ_SENT"
proof -
  let ?i = "case io of None \<Rightarrow> PStr (hex32 (randbits e)) | Some i \<Rightarrow> i"
  obtain c' r where sr: "send_request upper e c cmd tp pl ?i = (c', r)"
    by (cases "send_request upper e c cmd tp pl ?i")
  with assms have c1: "c' = c1" and r: "r = Inr ()"
    by (auto simp: request_def Let_def split: sum.splits)
  have idle: "cstate c = CS_IDLE"
  proof (rule ccontr)
    assume "cstate c \<noteq> CS_IDLE"
    from request_busy [OF this, of upper e cmd tp pl io] assms show False by simp
  qed
  from send_request_idle [OF idle sr] r c1 have "cstate c1 = CS_REQ_SENT" by simp
  with idle show ?thesis by simp
qed

lemma request_failed:
  assumes "cstate c = CS_IDLE" and "request upper e c cmd tp pl io = (c1, r)"
  shows "cstate c1 \<noteq> CS_IDLE"
proof -
  let ?i = "case io of None \<Rightarrow> PStr (hex32 (randbits e)) | Some i \<Rightarrow> i"
  obtain c' r' where sr: "send_request upper e c cmd tp pl ?i = (c', r')"
    by (cases "send_request upper e c cmd tp pl ?i")
  with assms(2) have "c' = c1"
    by (auto simp: request_def Let_def split: sum.splits)
  with send_request_idle [OF assms(1) sr] show ?thesis by simp
qed

text \<open>
  Claim C7. \<open>getresponse\<close> on an idle connection, and on any connection that is not in
  the state Request-Sent, raises \<open>ResponseNotReady\<close>; \<open>request\<close> on a connection that
  is not idle raises \<open>CannotSendRequest\<close>. A \<open>request\<close> issued on an idle connection
  leaves it busy whether or not it raised, so a second \<open>request\<close> raises \<open>CannotSendRequest\<close>; a
  \<open>request\<close> that returns began in Idle and ends in Request-Sent, and a \<open>getresponse\<close>
  that returns began in Request-Sent and ends in Idle.
\<close>

theorem connection_state_machine:
  "(cstate c = CS_IDLE \<longrightarrow> snd (getresponse e c) = Inl ResponseNotReady) \<and>
   (cstate c \<noteq> CS_REQ_SENT \<longrightarrow> snd (getresponse e c) = Inl ResponseNotReady) \<and>
   (cstate c \<noteq> CS_IDLE \<longrightarrow> snd (request upper e c cmd tp pl io) = Inl CannotSendRequest) \<and>
   (\<forall>c1 r. cstate c = CS_IDLE \<longrightarrow> request upper e c cmd tp pl io = (c1, r) \<longrightarrow>
      cstate c1 \<noteq> CS_IDLE \<and>
      snd (request upper' e' c1 cmd' tp' pl' io') = Inl CannotSendRequest) \<and>
   (\<forall>c1 i. request upper e c cmd tp pl io = (c1, Inr i) \<longrightarrow>
      cstate c = CS_IDLE \<and> cstate c1 = CS_REQ_SENT) \<and>
   (\<forall>c1 r. getresponse e c = (c1, Inr r) \<longrightarrow> cstate c = CS_REQ_SENT \<and> cstate c1 = CS_IDLE)"
proof (intro conjI allI impI)
  assume "cstate c = CS_IDLE"
  then show "snd (getresponse e c) = Inl ResponseNotReady"
    by (intro getresponse_not_ready) simp
next
  assume "cstate c \<noteq> CS_REQ_SENT"
  then show "snd (getresponse e c) = Inl ResponseNotReady"
    by (rule getresponse_not_ready)
next
  assume "cstate c \<noteq> CS_IDLE"
  then show "snd (request upper e c cmd tp pl io) = Inl CannotSendRequest"
    using request_busy by blast
next
  fix c1 r assume a: "cstate c = CS_IDLE" "request upper e c cmd tp pl io = (c1, r)"
  from request_failed [OF a] show busy: "cstate c1 \<noteq> CS_IDLE" .
  from request_busy [OF busy] show "snd (request upper' e' c1 cmd' tp' pl' io') = Inl CannotSendRequest"
    by blast
next
  fix c1 i assume a: "request upper e c cmd tp pl io = (c1, Inr i)"
  from request_ok [OF a] show "cstate c = CS_IDLE" "cstate c1 = CS_REQ_SENT" by simp_all
next
  fix c1 r assume a: "getresponse e c = (c1, Inr r)"
  from getresponse_ok [OF a] show "cstate c = CS_REQ_SENT" "cstate c1 = CS_IDLE" by simp_all
qed

theorem connection_state_machine_witness:
  "cstate demo_connection = CS_IDLE \<and>
   snd (getresponse demo_env demo_connection) = Inl ResponseNotReady \<and>
   request (map upper_ascii) demo_env demo_connection (S ''ping'') (PStr (S ''t1''))
       (PStr (S ''hello'')) None
     = (demo_sent, Inr (PStr (S ''000000000000000000000000000000ff''))) \<and>
   cstate demo_sent = CS_REQ_SENT \<and>
   snd (request (map upper_ascii) demo_env demo_sent (S ''ping'') (PStr (S ''t1''))
          (PStr (S ''hello'')) None) = Inl CannotSendRequest \<and>
   getresponse demo_env demo_sent
     = (demo_sent\<lparr>cstate := CS_IDLE, sock := None\<rparr>, Inr demo_response) \<and>
   cstate (demo_sent\<lparr>cstate := CS_IDLE, sock := None\<rparr>) = CS_IDLE"
  using connection_state_machine
          [of demo_connection demo_env "map upper_ascii" "S ''ping''" "PStr (S ''t1'')"
              "PStr (S ''hello'')" None "map upper_ascii" demo_env "S ''ping''"
              "PStr (S ''t1'')" "PStr (S ''hello'')" None]
        connection_state_machine
          [of demo_sent demo_env "map upper_ascii" "S ''ping''" "PStr (S ''t1'')"
              "PStr (S ''hello'')" None]
        demo_request demo_getresponse
  by (simp add: demo_connection_def demo_sent_def)

section \<open>Properties of the request line\<close>

lemma sock_sendall_cases:
  assumes "sock c = Some s" and "sock_sendall c b = (c', r)"
  shows "(r = Inr () \<and> c' = c\<lparr>sock := Some (s\<lparr>sent := sent s @ b\<rparr>)\<rparr>) \<or> (r = Inl OSError \<and> c' = c)"
  using assms by (auto simp: sock_sendall_def sendall_def split: if_splits)

lemma end_request_cases:
  assumes "sock c = Some s" and "end_request e c = (c', r)"
  shows "(r = Inr () \<and> sock c' = Some (s\<lparr>sent := sent s @ [CHR 0x0D, CHR 0x0A]\<rparr>)) \<or>
         ((\<exists>err. r = Inl err) \<and> sock c' = Some s)"
  using assms
  by (auto simp: end_request_def send_def sock_sendall_def sendall_def encode_def
        latin1_encode_def char_of_eq_iff split: if_splits)

lemma send_request_written:
  assumes sr: "send_request upper e c cmd tp pl i = (c', r)" and s: "sock c = Some s"
  shows "\<exists>s'. sock c' = Some s' \<and> incoming s' = incoming s \<and>
           (sent s' = sent s \<or>
            (\<exists>line rest. encode (PStr (upper cmd @ S '' CMIT/1.0'' @ [13, 10])) = Inr line \<and>
                         sent s' = sent s @ line @ rest)) \<and>
           (r = Inr () \<longrightarrow>
              (\<exists>line m b. encode (PStr (upper cmd @ S '' CMIT/1.0'' @ [13, 10])) = Inr line \<and>
                 request_message (now e) tp pl i = Inr m \<and> call_message m = Inr b \<and>
                 sent s' = sent s @ line @ [CHR 0x0D, CHR 0x0A] @ b @ [CHR 0x0D, CHR 0x0A]))"
proof -
  let ?c0 = "case held_response c of
               Some r \<Rightarrow> if isclosed r then c\<lparr>held_response := None\<rparr> else c
             | None \<Rightarrow> c"
  have s0: "sock ?c0 = Some s" using s by (simp split: option.splits)
  show ?thesis
  proof (cases "cstate ?c0 = CS_IDLE")
    case False
    with sr s0 show ?thesis by (auto simp: send_request_def Let_def)
  next
    case idle: True
    let ?c1 = "?c0\<lparr>cstate := CS_REQ_STARTED\<rparr>"
    show ?thesis
    proof (cases "request_message (now e) tp pl i")
      case (Inl err)
      with sr s0 idle show ?thesis by (auto simp: send_request_def Let_def)
    next
      case m: (Inr m)
      show ?thesis
      proof (cases "hashable i")
        case False
        with sr s0 idle m show ?thesis by (auto simp: send_request_def Let_def)
      next
        case h: True
        let ?c2 = "?c1\<lparr>messages := od_set i m (messages ?c1)\<rparr>"
        have s2: "sock ?c2 = Some s" using s0 by simp
        show ?thesis
        proof (cases "encode (PStr (upper cmd @ S '' CMIT/1.0'' @ [13, 10]))")
          case (Inl err)
          with sr s0 idle m h show ?thesis by (auto simp: send_request_def Let_def)
        next
          case line: (Inr line)
          obtain c3 r3 where w3: "sock_sendall ?c2 line = (c3, r3)"
            by (cases "sock_sendall ?c2 line")
          from sock_sendall_cases [OF s2 w3]
          consider (ok) "r3 = Inr ()" "c3 = ?c2\<lparr>sock := Some (s\<lparr>sent := sent s @ line\<rparr>)\<rparr>"
            | (bad) "r3 = Inl OSError" "c3 = ?c2" by blast
          then show ?thesis
          proof cases
            case bad
            with sr s0 idle m h line w3 show ?thesis
              by (auto simp: send_request_def Let_def)
          next
            case ok
            let ?s3 = "s\<lparr>sent := sent s @ line\<rparr>"
            have s3: "sock c3 = Some ?s3" using ok by simp
            obtain c4 r4 where w4: "sock_sendall c3 [CHR 0x0D, CHR 0x0A] = (c4, r4)"
              by (cases "sock_sendall c3 [CHR 0x0D, CHR 0x0A]")
            from sock_sendall_cases [OF s3 w4]
            consider (ok4) "r4 = Inr ()"
                "c4 = c3\<lparr>sock := Some (?s3\<lparr>sent := sent ?s3 @ [CHR 0x0D, CHR 0x0A]\<rparr>)\<rparr>"
              | (bad4) "r4 = Inl OSError" "c4 = c3" by blast
            then show ?thesis
            proof cases
              case bad4
              with sr s0 idle m h line w3 ok w4 show ?thesis
                by (auto simp: send_request_def Let_def)
            next
              case ok4
              let ?s4 = "?s3\<lparr>sent := sent ?s3 @ [CHR 0x0D, CHR 0x0A]\<rparr>"
              have s4: "sock c4 = Some ?s4" using ok4 by simp
              show ?thesis
              proof (cases "call_message m")
                case (Inl err)
                with sr s0 idle m h line w3 ok w4 ok4 show ?thesis
                  by (auto simp: send_request_def Let_def)
              next
                case b: (Inr b)
                obtain c5 r5 where w5: "sock_sendall c4 b = (c5, r5)"
                  by (cases "sock_sendall c4 b")
                from sock_sendall_cases [OF s4 w5]
                consider (ok5) "r5 = Inr ()" "c5 = c4\<lparr>sock := Some (?s4\<lparr>sent := sent ?s4 @ b\<rparr>)\<rparr>"
                  | (bad5) "r5 = Inl OSError" "c5 = c4" by blast
                then show ?thesis
                proof cases
                  case bad5
                  with sr s0 idle m h line w3 ok w4 ok4 b w5 show ?thesis
                    by (auto simp: send_request_def Let_def)
                next
                  case ok5
                  let ?s5 = "?s4\<lparr>sent := sent ?s4 @ b\<rparr>"
                  have s5: "sock c5 = Some ?s5" using ok5 by simp
                  from sr idle m h line w3 ok w4 ok4 b w5 ok5 s0
                  have er: "end_request e c5 = (c', r)"
                    by (simp add: send_request_def Let_def)
                  from end_request_cases [OF s5 er] show ?thesis
                    using line m b by auto
                qed
              qed
            qed
          qed
        qed
      qed
    qed
  qed
qed

lemma session_prepare_command:
  assumes "session_prepare upper lower unparse e cmd sp tp data args kwargs = Inr p"
  shows "p_command p = Some (upper cmd)"
proof -
  let ?p0 = "prepare_command PreparedRequest (upper cmd)"
  have c0: "p_command ?p0 = Some (upper cmd)" by (simp add: prepare_command_def)
  from assms obtain p1 p2 where
    p1: "prepare_socket_path lower unparse e ?p0 sp = Inr p1" and
    p2: "prepare_topic p1 (case tp of None \<Rightarrow> PStr (S ''topic.null'') | Some t \<Rightarrow> t) = Inr p2" and
    p3: "prepare_payload p2 (case data of None \<Rightarrow> PList [] | Some d \<Rightarrow> d)
           (case args of None \<Rightarrow> [] | Some a \<Rightarrow> a) (case kwargs of None \<Rightarrow> [] | Some k \<Rightarrow> k) = Inr p"
    by (auto simp: session_prepare_def prepare_request_def Request_def ebind_def split: sum.splits)
  from p1 have "p_command p1 = p_command ?p0"
    by (auto simp: prepare_socket_path_def ebind_def Let_def
             split: sum.splits if_splits option.splits pyval.splits)
  moreover from p2 have "p_command p2 = p_command p1"
    by (auto simp: prepare_topic_def split: pyval.splits if_splits)
  moreover from p3 have "p_command p = p_command p2"
    by (auto simp: prepare_payload_def ebind_def split: sum.splits)
  ultimately show ?thesis using c0 by simp
qed

lemmas path_eval =
  is_alpha_def scheme_re_def uri_scheme_char_def uri_path_char_def uri_re_def new_SocketPath_def
  parse_socket_path_def socket_path_of_def lower_ascii_def validate_socket_path_def
  CMITConnection_def

lemmas request_eval =
  Request_def PreparedRequest_def prepare_command_def prepare_socket_path_def prepare_topic_def
  prepare_payload_def prepare_request_def session_prepare_def

lemma demo_session_prepare:
  "session_prepare (map upper_ascii) (map lower_ascii) (\<lambda>sc p. sc @ S '':'' @ p) demo_env
       (S ''ping'') (PStr (S ''cmit://tmp/cmitp.sock'')) None None None None
   = Inr \<lparr>p_command = Some (S ''PING''), p_socket_path = Some (S ''cmit:/tmp/cmitp.sock''),
          p_topic = PStr (S ''topic.null''),
          p_payload = Some (S ''{\"args\": [], \"kwargs\": {}, \"data\": []}''), p_msg_id = None\<rparr>"
  by (simp add: demo_env_def upper_ascii_def codec_eval path_eval request_eval)

text \<open>
  Claim C9. Whatever \<open>_send_request\<close> writes on a connected socket starts with the request
  line made of \<open>command.upper()\<close> and the protocol version, and a call that returns has
  written that line, the blank line, the encoded message and the line end, in this order.
  The prepared request that \<open>Session.request\<close> hands on carries \<open>command.upper()\<close> as its
  command.
\<close>

theorem wire_command_upper:
  "(\<forall>c' r s. send_request upper e c cmd tp pl i = (c', r) \<longrightarrow> sock c = Some s \<longrightarrow>
      (\<exists>s'. sock c' = Some s' \<and>
         (sent s' = sent s \<or>
          (\<exists>line rest. encode (PStr (upper cmd @ S '' CMIT/1.0'' @ [13, 10])) = Inr line \<and>
                       sent s' = sent s @ line @ rest)) \<and>
         (r = Inr () \<longrightarrow>
            (\<exists>line m b. encode (PStr (upper cmd @ S '' CMIT/1.0'' @ [13, 10])) = Inr line \<and>
               request_message (now e) tp pl i = Inr m \<and> call_message m = Inr b \<and>
               sent s' = sent s @ line @ [CHR 0x0D, CHR 0x0A] @ b @ [CHR 0x0D, CHR 0x0A])))) \<and>
   (\<forall>p. session_prepare upper lower unparse e' cmd sp tp' data args kwargs = Inr p \<longrightarrow>
        p_command p = Some (upper cmd))"
proof (intro conjI allI impI)
  fix c' r s
  assume "send_request upper e c cmd tp pl i = (c', r)" "sock c = Some s"
  from send_request_written [OF this]
  show "\<exists>s'. sock c' = Some s' \<and>
         (sent s' = sent s \<or>
          (\<exists>line rest. encode (PStr (upper cmd @ S '' CMIT/1.0'' @ [13, 10])) = Inr line \<and>
                       sent s' = sent s @ line @ rest)) \<and>
         (r = Inr () \<longrightarrow>
            (\<exists>line m b. encode (PStr (upper cmd @ S '' CMIT/1.0'' @ [13, 10])) = Inr line \<and>
               request_message (now e) tp pl i = Inr m \<and> call_message m = Inr b \<and>
               sent s' = sent s @ line @ [CHR 0x0D, CHR 0x0A] @ b @ [CHR 0x0D, CHR 0x0A]))"
    by blast
next
  fix p
  assume "session_prepare upper lower unparse e' cmd sp tp' data args kwargs = Inr p"
  then show "p_command p = Some (upper cmd)" by (rule session_prepare_command)
qed

lemma demo_send_request:
  "send_request (map upper_ascii) demo_env demo_connection (S ''ping'') (PStr (S ''t1''))
       (PStr (S ''hello'')) (PStr (S ''000000000000000000000000000000ff''))
   = (demo_sent, Inr ())"
  by (simp add: demo_env_def demo_connection_def demo_reply_def demo_sent_def upper_ascii_def
        codec_eval client_eval)

theorem wire_command_upper_witness:
  "send_request (map upper_ascii) demo_env demo_connection (S ''ping'') (PStr (S ''t1''))
       (PStr (S ''hello'')) (PStr (S ''000000000000000000000000000000ff''))
     = (demo_sent, Inr ()) \<and>
   sock demo_connection = Some \<lparr>sent = [], incoming = demo_reply, writable = True\<rparr> \<and>
   (\<exists>s' rest. sock demo_sent = Some s' \<and>
       encode (PStr (map upper_ascii (S ''ping'') @ S '' CMIT/1.0'' @ [13, 10]))
         = Inr (''PING CMIT/1.0'' @ [CHR 0x0D, CHR 0x0A]) \<and>
       sent s' = [] @ (''PING CMIT/1.0'' @ [CHR 0x0D, CHR 0x0A]) @ rest) \<and>
   session_prepare (map upper_ascii) (map lower_ascii) (\<lambda>sc p. sc @ S '':'' @ p) demo_env
       (S ''ping'') (PStr (S ''cmit://tmp/cmitp.sock'')) None None None None
     = Inr \<lparr>p_command = Some (S ''PING''), p_socket_path = Some (S ''cmit:/tmp/cmitp.sock''),
            p_topic = PStr (S ''topic.null''),
            p_payload = Some (S ''{\"args\": [], \"kwargs\": {}, \"data\": []}''), p_msg_id = None\<rparr> \<and>
   p_command \<lparr>p_command = Some (S ''PING''), p_socket_path = Some (S ''cmit:/tmp/cmitp.sock''),
            p_topic = PStr (S ''topic.null''),
            p_payload = Some (S ''{\"args\": [], \"kwargs\": {}, \"data\": []}''), p_msg_id = None\<rparr>
     = Some (map upper_ascii (S ''ping''))"
  using wire_command_upper
          [of "map upper_ascii" demo_env demo_connection "S ''ping''" "PStr (S ''t1'')"
              "PStr (S ''hello'')" "PStr (S ''000000000000000000000000000000ff'')"
              "map lower_ascii" "\<lambda>sc p. sc @ S '':'' @ p" demo_env
              "PStr (S ''cmit://tmp/cmitp.sock'')" None None None None]
        demo_send_request demo_session_prepare
  by (simp add: demo_connection_def demo_sent_def upper_ascii_def encode_def latin1_encode_def
        char_of_eq_iff)

subsection \<open>The accessors of a message\<close>

lemma ebind_Inl_Inr: "ebind r (\<lambda>x. Inr (g x)) = Inl e \<Longrightarrow> r = Inl e"
  by (cases r) (simp_all add: ebind_def)

lemma utf8_points_error: "utf8_points bs = Inl e \<Longrightarrow> e = UnicodeDecodeError"
proof (induction bs arbitrary: e rule: utf8_points.induct)
  case 1
  then show ?case by simp
next
  case (2 b0 bs)
  consider (a) "b0 < 128" | (b) "194 \<le> b0" "b0 < 224" | (c) "224 \<le> b0" "b0 < 240"
    | (d) "240 \<le> b0" "b0 < 245" | (e) "128 \<le> b0" "b0 < 194" | (f) "245 \<le> b0"
    by linarith
  then show ?case
  proof cases
    case a
    with 2(1,5) show ?thesis by (auto dest: ebind_Inl_Inr)
  next
    case b
    with 2(2,5) show ?thesis
      by (auto split: list.splits if_splits dest!: ebind_Inl_Inr)
  next
    case c
    with 2(3,5) show ?thesis
      by (auto split: list.splits if_splits dest!: ebind_Inl_Inr)
  next
    case d
    with 2(4,5) show ?thesis
      by (auto split: list.splits if_splits dest!: ebind_Inl_Inr)
  next
    case e
    with 2(5) show ?thesis by simp
  next
    case f
    with 2(5) show ?thesis by simp
  qed
qed

lemma utf8_decode_valid: "(\<exists>s. utf8_decode b = Inr s) = valid_utf8 b"
  using utf8_points_well_formed [of "map of_char b"]
  by (cases "utf8_points (map of_char b)") (simp_all add: utf8_decode_def valid_utf8_def)

lemma utf8_decode_invalid: "(utf8_decode b = Inl UnicodeDecodeError) = (\<not> valid_utf8 b)"
  using utf8_points_well_formed [of "map of_char b"] utf8_points_error [of "map of_char b"]
  by (cases "utf8_points (map of_char b)") (auto simp: utf8_decode_def valid_utf8_def)

lemma eq_char_of_iff: "(c = char_of (n::nat)) = (take_bit 8 n = of_char c)"
  using char_of_eq_iff [of n c] by auto

lemma as_string_invalid:
  assumes "\<not> valid_utf8 (stored_topic m) \<or> \<not> valid_utf8 (stored_payload m)"
  shows "as_string m = Inl UnicodeDecodeError"
proof (cases "valid_utf8 (stored_topic m)")
  case False
  then have "topic m = Inl UnicodeDecodeError" by (simp add: topic_def utf8_decode_invalid)
  then show ?thesis by (simp add: as_string_def ebind_def)
next
  case True
  with assms have "payload m = Inl UnicodeDecodeError"
    by (simp add: payload_def utf8_decode_invalid)
  moreover from True obtain t where "topic m = Inr t"
    using utf8_decode_valid [of "stored_topic m"] by (auto simp: topic_def)
  ultimately show ?thesis by (simp add: as_string_def ebind_def)
qed

text \<open>
  Claim C10. A \<open>str\<close> topic or payload is stored as its Latin-1 bytes and raw bytes are
  stored as they are, while the accessors decode the stored bytes as UTF-8. So \<open>topic\<close>
  and \<open>payload\<close> raise \<open>UnicodeDecodeError\<close> exactly when the stored bytes are not
  well-formed UTF-8 and return a string exactly when they are; \<open>as_string\<close>,
  \<open>as_bytes\<close> and the encoded message raise it as soon as one of the two is not. A payload
  set from the Latin-1 string of the one character \<open>U+00E9\<close>, or from the raw byte
  \<open>0xFF\<close>, is such a message.
\<close>

theorem accessors_total_iff_utf8:
  "(\<forall>m'. set_payload m (PStr s) = Inr m' \<longrightarrow> stored_payload m' = map char_of s) \<and>
   (\<forall>m'. CMITMessage tm (PStr s) i = Inr m' \<longrightarrow> stored_topic m' = map char_of s) \<and>
   (set_payload m (PBytes b) = Inr (m\<lparr>stored_payload := b\<rparr>)) \<and>
   ((topic m = Inl UnicodeDecodeError) = (\<not> valid_utf8 (stored_topic m))) \<and>
   ((\<exists>t. topic m = Inr t) = valid_utf8 (stored_topic m)) \<and>
   ((payload m = Inl UnicodeDecodeError) = (\<not> valid_utf8 (stored_payload m))) \<and>
   ((\<exists>t. payload m = Inr t) = valid_utf8 (stored_payload m)) \<and>
   (\<not> valid_utf8 (stored_topic m) \<or> \<not> valid_utf8 (stored_payload m) \<longrightarrow>
      as_string m = Inl UnicodeDecodeError \<and> as_bytes m = Inl UnicodeDecodeError \<and>
      call_message m = Inl UnicodeDecodeError) \<and>
   set_payload m (PStr [233]) = Inr (m\<lparr>stored_payload := [CHR 0xE9]\<rparr>) \<and>
   payload (m\<lparr>stored_payload := [CHR 0xE9]\<rparr>) = Inl UnicodeDecodeError \<and>
   as_string (m\<lparr>stored_payload := [CHR 0xE9]\<rparr>) = Inl UnicodeDecodeError \<and>
   payload (m\<lparr>stored_payload := [CHR 0xFF]\<rparr>) = Inl UnicodeDecodeError"
proof (intro conjI allI impI)
  fix m' assume "set_payload m (PStr s) = Inr m'"
  then show "stored_payload m' = map char_of s"
    by (auto simp: set_payload_def encode_def latin1_encode_def ebind_def split: if_splits)
next
  fix m' assume "CMITMessage tm (PStr s) i = Inr m'"
  then show "stored_topic m' = map char_of s"
    by (auto simp: CMITMessage_def encode_def latin1_encode_def ebind_def split: if_splits)
next
  show "set_payload m (PBytes b) = Inr (m\<lparr>stored_payload := b\<rparr>)"
    by (simp add: set_payload_def ebind_def)
next
  show "(topic m = Inl UnicodeDecodeError) = (\<not> valid_utf8 (stored_topic m))"
    by (simp add: topic_def utf8_decode_invalid)
next
  show "(\<exists>t. topic m = Inr t) = valid_utf8 (stored_topic m)"
    by (simp add: topic_def utf8_decode_valid)
next
  show "(payload m = Inl UnicodeDecodeError) = (\<not> valid_utf8 (stored_payload m))"
    by (simp add: payload_def utf8_decode_invalid)
next
  show "(\<exists>t. payload m = Inr t) = valid_utf8 (stored_payload m)"
    by (simp add: payload_def utf8_decode_valid)
next
  assume a: "\<not> valid_utf8 (stored_topic m) \<or> \<not> valid_utf8 (stored_payload m)"
  from as_string_invalid [OF a] show "as_string m = Inl UnicodeDecodeError" .
  then show "as_bytes m = Inl UnicodeDecodeError" by (simp add: as_bytes_def ebind_def)
  then show "call_message m = Inl UnicodeDecodeError" by (simp add: call_message_def ebind_def)
next
  show "set_payload m (PStr [233]) = Inr (m\<lparr>stored_payload := [CHR 0xE9]\<rparr>)"
    by (simp add: set_payload_def encode_def latin1_encode_def ebind_def char_of_eq_iff)
next
  show p: "payload (m\<lparr>stored_payload := [CHR 0xE9]\<rparr>) = Inl UnicodeDecodeError"
    by (simp add: payload_def utf8_decode_def)
  have "\<not> valid_utf8 (stored_payload (m\<lparr>stored_payload := [CHR 0xE9]\<rparr>))"
    by (simp add: valid_utf8_def in_range_def)
  then show "as_string (m\<lparr>stored_payload := [CHR 0xE9]\<rparr>) = Inl UnicodeDecodeError"
    by (intro as_string_invalid) simp
next
  show "payload (m\<lparr>stored_payload := [CHR 0xFF]\<rparr>) = Inl UnicodeDecodeError"
    by (simp add: payload_def utf8_decode_def)
qed

theorem accessors_total_iff_utf8_witness:
  "set_payload demo_message (PStr [233]) = Inr (demo_message\<lparr>stored_payload := [CHR 0xE9]\<rparr>) \<and>
   stored_payload (demo_message\<lparr>stored_payload := [CHR 0xE9]\<rparr>) = map char_of [233::nat] \<and>
   CMITMessage (PFloat (S ''1700000000.5'')) (PStr [116, 233]) (PStr (S ''01''))
     = Inr (demo_message\<lparr>stored_topic := [CHR ''t'', CHR 0xE9], stored_payload := []\<rparr>) \<and>
   \<not> valid_utf8 (stored_payload (demo_message\<lparr>stored_payload := [CHR 0xE9]\<rparr>)) \<and>
   valid_utf8 (stored_topic (demo_message\<lparr>stored_payload := [CHR 0xE9]\<rparr>)) \<and>
   topic (demo_message\<lparr>stored_payload := [CHR 0xE9]\<rparr>) = Inr (S ''t1'') \<and>
   payload (demo_message\<lparr>stored_payload := [CHR 0xE9]\<rparr>) = Inl UnicodeDecodeError \<and>
   as_string (demo_message\<lparr>stored_payload := [CHR 0xE9]\<rparr>) = Inl UnicodeDecodeError \<and>
   call_message (demo_message\<lparr>stored_payload := [CHR 0xE9]\<rparr>) = Inl UnicodeDecodeError \<and>
   payload demo_message = Inr (S ''hello'') \<and> valid_utf8 (stored_payload demo_message)"
  using accessors_total_iff_utf8
          [of demo_message "[233]" "PFloat (S ''1700000000.5'')" "PStr (S ''01'')" "[]"]
        accessors_total_iff_utf8
          [of "demo_message\<lparr>stored_payload := [CHR 0xE9]\<rparr>" "[116, 233]"
              "PFloat (S ''1700000000.5'')" "PStr (S ''01'')" "[]"]
  by (simp add: demo_message_def codec_eval valid_utf8_def in_range_def eq_char_of_iff)

lemma split_char_nonempty: "split_char sep s \<noteq> []"
  by (induction s) (auto split: list.splits)

lemma split_char_single: "(split_char sep s = [a]) = (s = a \<and> sep \<notin> set s)"
proof (induction s arbitrary: a)
  case Nil
  then show ?case by auto
next
  case (Cons c cs)
  show ?case
  proof (cases "c = sep")
    case True
    then show ?thesis using split_char_nonempty [of sep cs] by auto
  next
    case False
    then show ?thesis
      using Cons [of "tl a"] split_char_nonempty [of sep cs]
      by (cases "split_char sep cs"; cases a) auto
  qed
qed

lemma split_char_pair:
  "(split_char sep s = [a, b]) = (s = a @ [sep] @ b \<and> sep \<notin> set a \<and> sep \<notin> set b)"
proof (induction s arbitrary: a)
  case Nil
  then show ?case by auto
next
  case (Cons c cs)
  show ?case
  proof (cases "c = sep")
    case True
    then show ?thesis
      using split_char_single [of sep cs b] by (cases a) auto
  next
    case False
    show ?thesis
    proof (cases "split_char sep cs")
      case Nil
      then show ?thesis using split_char_nonempty [of sep cs] by simp
    next
      case (Cons w ws)
      show ?thesis
      proof (cases a)
        case Nil
        with False Cons show ?thesis by auto
      next
        case a: (Cons x xs)
        from Cons.IH [of xs] Cons False a show ?thesis by auto
      qed
    qed
  qed
qed

lemma strip_no_space:
  assumes "list_all (\<lambda>c. \<not> py_isspace c) s"
  shows "strip s = s"
proof -
  have "\<And>xs. list_all (\<lambda>c. \<not> py_isspace c) xs \<Longrightarrow> dropWhile py_isspace xs = xs"
    by (case_tac xs) auto
  moreover have "list_all (\<lambda>c. \<not> py_isspace c) (rev s)" using assms by (simp add: list_all_iff)
  ultimately show ?thesis using assms by (simp add: strip_def)
qed

lemma int_digits_ok_plain:
  "95 \<notin> set w \<Longrightarrow> int_digits_ok w = (w \<noteq> [] \<and> list_all is_digit w)"
  by (induction w rule: int_digits_ok.induct) auto

lemma digit_char_plain:
  "is_digit c \<or> c = 178 \<or> c = 179 \<or> c = 185 \<Longrightarrow>
   \<not> py_isspace c \<and> c \<noteq> 95 \<and> c \<noteq> 45 \<and> c \<noteq> 43"
  by (auto simp: py_isspace_def is_digit_def)

lemma py_int_isdigit:
  assumes "isdigit w"
  shows "py_int w = (if list_all is_digit w then Inr (int (nat_of_digits w)) else Inl ValueError)"
proof -
  from assms have ne: "w \<noteq> []" and
    cs: "\<And>c. c \<in> set w \<Longrightarrow> is_digit c \<or> c = 178 \<or> c = 179 \<or> c = 185"
    by (auto simp: isdigit_def list_all_iff)
  have "list_all (\<lambda>c. \<not> py_isspace c) w"
    using cs digit_char_plain by (auto simp: list_all_iff)
  then have st: "strip w = w" by (rule strip_no_space)
  have u: "95 \<notin> set w" using cs digit_char_plain by blast
  obtain c r where w: "w = c # r" using ne by (cases w) auto
  have c: "c \<noteq> 45" "c \<noteq> 43" using cs [of c] digit_char_plain [of c] w by auto
  have f: "list_all is_digit w \<Longrightarrow> filter is_digit w = w" by (simp add: list_all_iff)
  show ?thesis
    using st c u ne f int_digits_ok_plain [OF u]
    by (auto simp: py_int_def Let_def w)
qed

lemma split_first_prefix:
  assumes "prefix (S ''CMIT/'') v"
  shows "split_first 47 v = [S ''CMIT'', drop 5 v]"
proof -
  from assms obtain r where v: "v = S ''CMIT/'' @ r" by (auto simp: prefix_def)
  show ?thesis by (simp add: split_first_def v)
qed

lemma digits3_isdigit: "digits3 d \<Longrightarrow> isdigit d \<and> 46 \<notin> set d \<and> \<not> 3 < length d"
  by (auto simp: digits3_def isdigit_def list_all_iff is_digit_def)

lemma parse_version_iff:
  "(parse_version v = Inr (a, b)) =
   (\<exists>ma mi. v = S ''CMIT/'' @ ma @ [46] @ mi \<and> digits3 ma \<and> digits3 mi \<and>
            a = int (nat_of_digits ma) \<and> b = int (nat_of_digits mi))"
proof
  assume pv: "parse_version v = Inr (a, b)"
  then have p: "prefix (S ''CMIT/'') v"
    by (auto simp: parse_version_def split: if_splits)
  let ?vn = "split_char 46 (drop 5 v)"
  from pv p have len: "length ?vn = 2" and dig: "\<not> list_ex (\<lambda>w. \<not> isdigit w) ?vn"
    and l3: "\<not> list_ex (\<lambda>w. 3 < length w) ?vn"
    and pi: "ebind (py_int (?vn ! 0)) (\<lambda>major.
             ebind (py_int (?vn ! 1)) (\<lambda>minor. Inr (major, minor))) = Inr (a, b)"
    by (auto simp: parse_version_def split_first_prefix Let_def split: if_splits)
  from len obtain ma mi where vn: "?vn = [ma, mi]"
    by (cases ?vn; cases "tl ?vn") auto
  from dig l3 vn have d: "isdigit ma" "isdigit mi" "length ma \<le> 3" "length mi \<le> 3"
    by auto
  from pi vn py_int_isdigit [OF d(1)] py_int_isdigit [OF d(2)]
  have ok: "list_all is_digit ma" "list_all is_digit mi"
    and ab: "a = int (nat_of_digits ma)" "b = int (nat_of_digits mi)"
    by (auto simp: ebind_def split: if_splits)
  from vn have "drop 5 v = ma @ [46] @ mi" by (simp add: split_char_pair)
  moreover from p have "v = S ''CMIT/'' @ drop 5 v" by (auto simp: prefix_def)
  ultimately have "v = S ''CMIT/'' @ ma @ [46] @ mi" by simp
  moreover have "digits3 ma" "digits3 mi"
    using d ok by (auto simp: digits3_def isdigit_def Suc_le_eq)
  ultimately show "\<exists>ma mi. v = S ''CMIT/'' @ ma @ [46] @ mi \<and> digits3 ma \<and> digits3 mi \<and>
            a = int (nat_of_digits ma) \<and> b = int (nat_of_digits mi)"
    using ab by blast
next
  assume "\<exists>ma mi. v = S ''CMIT/'' @ ma @ [46] @ mi \<and> digits3 ma \<and> digits3 mi \<and>
            a = int (nat_of_digits ma) \<and> b = int (nat_of_digits mi)"
  then obtain ma mi where v: "v = S ''CMIT/'' @ ma @ [46] @ mi" and d: "digits3 ma" "digits3 mi"
    and ab: "a = int (nat_of_digits ma)" "b = int (nat_of_digits mi)" by blast
  have p: "prefix (S ''CMIT/'') v" by (simp add: v)
  have dr: "drop 5 v = ma @ [46] @ mi" by (simp add: v)
  from digits3_isdigit [OF d(1)] digits3_isdigit [OF d(2)]
  have vn: "split_char 46 (drop 5 v) = [ma, mi]"
    by (simp add: dr split_char_pair)
  have "py_int ma = Inr a" "py_int mi = Inr b"
    using digits3_isdigit [OF d(1)] digits3_isdigit [OF d(2)] d ab
    by (simp_all add: py_int_isdigit digits3_def)
  then show "parse_version v = Inr (a, b)"
    using p vn digits3_isdigit [OF d(1)] digits3_isdigit [OF d(2)]
    by (simp add: parse_version_def split_first_prefix Let_def ebind_def)
qed

lemma parse_version_ok:
  "(\<exists>a b. parse_version v = Inr (a, b) \<and> \<not> (2 < a \<or> (a = 2 \<and> 0 \<le> b))) = version_ok v"
proof
  assume "\<exists>a b. parse_version v = Inr (a, b) \<and> \<not> (2 < a \<or> (a = 2 \<and> 0 \<le> b))"
  then obtain a b where pv: "parse_version v = Inr (a, b)" and lt: "\<not> (2 < a \<or> (a = 2 \<and> 0 \<le> b))"
    by blast
  from pv [unfolded parse_version_iff] obtain ma mi where
    "v = S ''CMIT/'' @ ma @ [46] @ mi" "digits3 ma" "digits3 mi"
    "a = int (nat_of_digits ma)" "b = int (nat_of_digits mi)" by blast
  with lt show "version_ok v" unfolding version_ok_def by (intro exI [of _ ma] exI [of _ mi]) auto
next
  assume "version_ok v"
  then obtain ma mi where v: "v = S ''CMIT/'' @ ma @ [46] @ mi" "digits3 ma" "digits3 mi"
    and lt: "nat_of_digits ma < 2" unfolding version_ok_def by blast
  then have "parse_version v = Inr (int (nat_of_digits ma), int (nat_of_digits mi))"
    unfolding parse_version_iff by blast
  with lt show "\<exists>a b. parse_version v = Inr (a, b) \<and> \<not> (2 < a \<or> (a = 2 \<and> 0 \<le> b))"
    by auto
qed

lemma send_error_not_True:
  "(case send_error e h code m of
      (h2, Inl err2) \<Rightarrow> (h2, Inl err2)
    | (h2, Inr u) \<Rightarrow> (h2, Inr (PBool False))) = (h', r) \<Longrightarrow> r \<noteq> Inr (PBool True)"
  by (cases "send_error e h code m") (auto split: sum.splits)

lemma parse_request_accepts:
  "(snd (parse_request e h) = Inr (PBool True)) =
   (length (split_ws 2 (rstrip_crlf (latin1_decode (raw_request_line h)))) = 2 \<and>
    version_ok (last (split_ws 2 (rstrip_crlf (latin1_decode (raw_request_line h))))))"
proof -
  let ?words = "split_ws 2 (rstrip_crlf (latin1_decode (raw_request_line h)))"
  let ?h1 = "h\<lparr>command := None, request_version := S ''CMIT/1.0'', close_connection := True,
                request_line := rstrip_crlf (latin1_decode (raw_request_line h))\<rparr>"
  obtain h' r where pr: "parse_request e h = (h', r)" by (cases "parse_request e h")
  consider (zero) "length ?words = 0" | (one) "length ?words = 1" | (more) "2 \<le> length ?words"
    by linarith
  then show ?thesis
  proof cases
    case zero
    then show ?thesis by (simp add: parse_request_def Let_def)
  next
    case one
    then show ?thesis by (simp add: parse_request_def Let_def)
  next
    case more
    show ?thesis
    proof (cases "parse_version (last ?words)")
      case (Inl err)
      then have "\<not> version_ok (last ?words)"
        using parse_version_ok [of "last ?words"] by auto
      moreover have "r \<noteq> Inr (PBool True)"
        using pr more Inl send_error_not_True
        by (auto simp: parse_request_def Let_def split: if_splits)
      ultimately show ?thesis using pr by simp
    next
      case (Inr ab)
      obtain a b where ab: "ab = (a, b)" by (cases ab)
      show ?thesis
      proof (cases "2 < a \<or> (a = 2 \<and> 0 \<le> b)")
        case True
        then have "\<not> version_ok (last ?words)"
          using parse_version_ok [of "last ?words"] Inr ab by auto
        moreover have "r \<noteq> Inr (PBool True)"
          using pr more Inr ab True send_error_not_True
          by (auto simp: parse_request_def Let_def split: if_splits)
        ultimately show ?thesis using pr by simp
      next
        case False
        then have "version_ok (last ?words)"
          using parse_version_ok [of "last ?words"] Inr ab by auto
        moreover have "(r = Inr (PBool True)) = (length ?words = 2)"
          using pr more Inr ab False
          by (auto simp: parse_request_def Let_def split: if_splits)
        ultimately show ?thesis using pr by simp
      qed
    qed
  qed
qed

lemma response_begin_version:
  assumes "msg r = None" and "read_final_status r = (r1, Inr (w, code, re))"
  shows "(w \<noteq> S ''CMIT/1.0'' \<longrightarrow> snd (response_begin tm r) = Inl (UnknownProtocol w)) \<and>
         ((\<exists>u. snd (response_begin tm r) = Inr u) \<longrightarrow> w = S ''CMIT/1.0'')"
  using assms by (auto simp: response_begin_def Let_def)

lemmas server_eval =
  wfile_write_def send_response_status_def send_response_def flush_response_line_def
  end_response_line_def ServerErrorMessage_def send_error_def split_first_def rstrip_crlf_def
  isdigit_def parse_version_def parse_request_def repr_char_def repr_def parse_body_def
  truthy_def handle_one_request_def cmit_response_def do_PING_def reply_with_def do_EXECUTE_def
  do_POLL_def simple_methods_def demo_handler_def demo_server_env_def

lemma reply_1_1_status:
  "read_final_status (CMITResponse \<lparr>sent = [], incoming = reply_1_1, writable = True\<rparr>)
   = (\<lparr>fp = Some (drop 17 reply_1_1), will_close = True, version = PStr (S ''UNKNOWN''),
       status = PStr (S ''UNKNOWN''), reason = S ''UNKNOWN'', msg = None\<rparr>,
      Inr (S ''CMIT/1.1'', 200, S ''OK'' @ [13, 10]))"
  by (simp add: reply_1_1_def codec_eval client_eval read_final_status_eval
      cong: prod.case_cong_weak sum.case_cong_weak option.case_cong_weak list.case_cong_weak)

text \<open>
  The claim C4 as stated fails on the client: a reply whose status line carries
  \<open>CMIT/1.1\<close> is refused with \<open>UnknownProtocol\<close>.
\<close>

theorem client_refuses_version_1_1:
  "snd (response_begin (PFloat (S ''1700000000.5''))
          (CMITResponse \<lparr>sent = [], incoming = reply_1_1, writable = True\<rparr>))
   = Inl (UnknownProtocol (S ''CMIT/1.1''))"
proof -
  have "msg (CMITResponse \<lparr>sent = [], incoming = reply_1_1, writable = True\<rparr>) = None"
    by (simp add: CMITResponse_def)
  from response_begin_version [OF this reply_1_1_status] show ?thesis by simp
qed

text \<open>
  Claim C4, amended. The server's \<open>parse_request\<close> accepts a request line exactly when
  the line has two words and the second is \<open>CMIT/<major>.<minor>\<close> with one to three
  decimal digits in each part and a major number below two: \<open>CMIT/1.0\<close> and \<open>CMIT/1.1\<close>
  are such versions, \<open>CMIT/2.0\<close> and \<open>CMIT/1\<close> are not. The client's \<open>begin\<close> accepts
  the single version \<open>CMIT/1.0\<close>: on a final status line with any other version that
  starts with \<open>CMIT/\<close> it raises \<open>UnknownProtocol\<close>.
\<close>

theorem version_validation:
  "((snd (parse_request e h) = Inr (PBool True)) =
      (length (split_ws 2 (rstrip_crlf (latin1_decode (raw_request_line h)))) = 2 \<and>
       version_ok (last (split_ws 2 (rstrip_crlf (latin1_decode (raw_request_line h))))))) \<and>
   (\<forall>r1 w code re. msg r = None \<longrightarrow> read_final_status r = (r1, Inr (w, code, re)) \<longrightarrow>
      (w \<noteq> S ''CMIT/1.0'' \<longrightarrow> snd (response_begin tm r) = Inl (UnknownProtocol w)) \<and>
      ((\<exists>u. snd (response_begin tm r) = Inr u) \<longrightarrow> w = S ''CMIT/1.0'')) \<and>
   version_ok (S ''CMIT/1.0'') \<and> version_ok (S ''CMIT/1.1'') \<and>
   \<not> version_ok (S ''CMIT/2.0'') \<and> \<not> version_ok (S ''CMIT/1'')"
proof (intro conjI allI impI)
  show "(snd (parse_request e h) = Inr (PBool True)) =
      (length (split_ws 2 (rstrip_crlf (latin1_decode (raw_request_line h)))) = 2 \<and>
       version_ok (last (split_ws 2 (rstrip_crlf (latin1_decode (raw_request_line h))))))"
    by (rule parse_request_accepts)
next
  fix r1 w code re
  assume a: "msg r = None" "read_final_status r = (r1, Inr (w, code, re))"
  { assume "w \<noteq> S ''CMIT/1.0''"
    with response_begin_version [OF a, of tm]
    show "snd (response_begin tm r) = Inl (UnknownProtocol w)" by blast }
  { assume "\<exists>u. snd (response_begin tm r) = Inr u"
    with response_begin_version [OF a, of tm]
    show "w = S ''CMIT/1.0''" by blast }
next
  have "parse_version (S ''CMIT/1.0'') = Inr (1, 0)"
    by (simp add: server_eval codec_eval client_eval)
  then show "version_ok (S ''CMIT/1.0'')"
    using parse_version_ok [of "S ''CMIT/1.0''"] by auto
next
  have "parse_version (S ''CMIT/1.1'') = Inr (1, 1)"
    by (simp add: server_eval codec_eval client_eval)
  then show "version_ok (S ''CMIT/1.1'')"
    using parse_version_ok [of "S ''CMIT/1.1''"] by auto
next
  have "parse_version (S ''CMIT/2.0'') = Inr (2, 0)"
    by (simp add: server_eval codec_eval client_eval)
  then show "\<not> version_ok (S ''CMIT/2.0'')"
    using parse_version_ok [of "S ''CMIT/2.0''"] by auto
next
  have "parse_version (S ''CMIT/1'') = Inl ValueError"
    by (simp add: server_eval codec_eval client_eval)
  then show "\<not> version_ok (S ''CMIT/1'')"
    using parse_version_ok [of "S ''CMIT/1''"] by auto
qed

lemma demo_parse_request_1_1:
  "parse_request demo_server_env
     ((demo_handler [])\<lparr>raw_request_line := ''PING CMIT/1.1'' @ [CHR 0x0D, CHR 0x0A]\<rparr>)
   = ((demo_handler [])\<lparr>raw_request_line := ''PING CMIT/1.1'' @ [CHR 0x0D, CHR 0x0A],
         close_connection := True, request_line := S ''PING CMIT/1.1'',
         request_version := S ''CMIT/1.1'', command := Some (S ''PING'')\<rparr>,
      Inr (PBool True))"
  by (simp add: server_eval codec_eval client_eval)

theorem version_validation_witness:
  "snd (parse_request demo_server_env
          ((demo_handler [])\<lparr>raw_request_line := ''PING CMIT/1.1'' @ [CHR 0x0D, CHR 0x0A]\<rparr>))
     = Inr (PBool True) \<and>
   split_ws 2 (rstrip_crlf (latin1_decode (''PING CMIT/1.1'' @ [CHR 0x0D, CHR 0x0A])))
     = [S ''PING'', S ''CMIT/1.1''] \<and>
   version_ok (S ''CMIT/1.1'') \<and>
   msg (CMITResponse \<lparr>sent = [], incoming = reply_1_1, writable = True\<rparr>) = None \<and>
   (\<exists>r1. read_final_status (CMITResponse \<lparr>sent = [], incoming = reply_1_1, writable = True\<rparr>)
          = (r1, Inr (S ''CMIT/1.1'', 200, S ''OK'' @ [13, 10]))) \<and>
   S ''CMIT/1.1'' \<noteq> S ''CMIT/1.0'' \<and>
   snd (response_begin (PFloat (S ''1700000000.5''))
          (CMITResponse \<lparr>sent = [], incoming = reply_1_1, writable = True\<rparr>))
     = Inl (UnknownProtocol (S ''CMIT/1.1'')) \<and>
   (\<exists>u. snd (response_begin (now demo_env)
               (CMITResponse \<lparr>sent = [], incoming = demo_reply, writable = True\<rparr>)) = Inr u)"
proof -
  let ?h = "(demo_handler [])\<lparr>raw_request_line := ''PING CMIT/1.1'' @ [CHR 0x0D, CHR 0x0A]\<rparr>"
  let ?r = "CMITResponse \<lparr>sent = [], incoming = reply_1_1, writable = True\<rparr>"
  note v = version_validation [of demo_server_env ?h ?r "PFloat (S ''1700000000.5'')"]
  have a: "snd (parse_request demo_server_env ?h) = Inr (PBool True)"
    by (subst demo_parse_request_1_1) simp
  have b: "split_ws 2 (rstrip_crlf (latin1_decode (''PING CMIT/1.1'' @ [CHR 0x0D, CHR 0x0A])))
             = [S ''PING'', S ''CMIT/1.1'']"
    by (simp add: rstrip_crlf_def latin1_decode_def split_ws_numeral_eval py_isspace_def Let_def)
  from v have c: "version_ok (S ''CMIT/1.1'')" by blast
  have d: "msg ?r = None" by (simp add: CMITResponse_def)
  have e: "\<exists>r1. read_final_status ?r = (r1, Inr (S ''CMIT/1.1'', 200, S ''OK'' @ [13, 10]))"
    using reply_1_1_status by blast
  have f: "S ''CMIT/1.1'' \<noteq> S ''CMIT/1.0''" by simp
  from v d reply_1_1_status f
  have g: "snd (response_begin (PFloat (S ''1700000000.5'')) ?r)
             = Inl (UnknownProtocol (S ''CMIT/1.1''))" by blast
  have "response_begin (now demo_env)
          (CMITResponse \<lparr>sent = [], incoming = demo_reply, writable = True\<rparr>)
        = (demo_response, Inr ())"
    by (simp add: demo_env_def demo_reply_def demo_response_def codec_eval client_eval
          read_final_status_eval
        cong: prod.case_cong_weak sum.case_cong_weak option.case_cong_weak list.case_cong_weak)
  then have h: "\<exists>u. snd (response_begin (now demo_env)
               (CMITResponse \<lparr>sent = [], incoming = demo_reply, writable = True\<rparr>)) = Inr u"
    by simp
  from a b c d e f g h show ?thesis by blast
qed

section \<open>Properties of the request handler\<close>

text \<open>
  Claim C3 fails on the code. A request line of three words is not answered: building
  the error message raises \<open>NameError\<close>, which leaves \<open>handle_one_request\<close> and the loop
  of \<open>handle\<close> with nothing written. A request line of one word is not answered either:
  \<open>parse_request\<close> returns nothing and the request is dropped without a response.
\<close>

theorem malformed_request_line_unanswered:
  "handle_one_request simple_methods demo_server_env
       (demo_handler (''PING X CMIT/1.0'' @ [CHR 0x0D, CHR 0x0A]))
     = ((demo_handler [])\<lparr>raw_request_line := ''PING X CMIT/1.0'' @ [CHR 0x0D, CHR 0x0A],
           close_connection := True, request_line := S ''PING X CMIT/1.0'',
           request_version := S ''CMIT/1.0''\<rparr>, Inl NameError) \<and>
   handle simple_methods demo_server_env
       (demo_handler (''PING X CMIT/1.0'' @ [CHR 0x0D, CHR 0x0A]))
     = Some ((demo_handler [])\<lparr>raw_request_line := ''PING X CMIT/1.0'' @ [CHR 0x0D, CHR 0x0A],
           close_connection := True, request_line := S ''PING X CMIT/1.0'',
           request_version := S ''CMIT/1.0''\<rparr>, Inl NameError) \<and>
   handle_one_request simple_methods demo_server_env (demo_handler (''PING'' @ [CHR 0x0D, CHR 0x0A]))
     = ((demo_handler [])\<lparr>raw_request_line := ''PING'' @ [CHR 0x0D, CHR 0x0A],
           close_connection := True, request_line := S ''PING'',
           request_version := S ''CMIT/1.0''\<rparr>, Inr ())"
  by (simp add: handle_def server_eval codec_eval client_eval)

section \<open>Properties of the adapter pool\<close>

text \<open>
  Claim C5 fails on the code. When the target changes, the stale connection is closed
  and the pool entry is cleared, but the fresh connection is only returned: the pool
  stays empty, and the next call for the same target opens one more connection instead
  of reusing it.
\<close>

theorem pool_entry_not_replaced:
  "get_connection two_paths_env
       \<lparr>objects = [(idle_connection (S ''/tmp/a.sock''))
                      \<lparr>sock := Some \<lparr>sent = [], incoming = [], writable = True\<rparr>\<rparr>],
         pooled = Some 0\<rparr> (S ''cmit://tmp/b.sock'')
     = (\<lparr>objects = [idle_connection (S ''/tmp/a.sock''), idle_connection (S ''/tmp/b.sock'')],
         pooled = None\<rparr>, Inr 1) \<and>
   get_connection two_paths_env
       \<lparr>objects = [idle_connection (S ''/tmp/a.sock''), idle_connection (S ''/tmp/b.sock'')],
         pooled = None\<rparr> (S ''cmit://tmp/b.sock'')
     = (\<lparr>objects = [idle_connection (S ''/tmp/a.sock''), idle_connection (S ''/tmp/b.sock''),
                    idle_connection (S ''/tmp/b.sock'')],
         pooled = Some 2\<rparr>, Inr 2)"
  by (simp add: get_connection_def two_paths_env_def idle_connection_def close_def
        path_eval codec_eval)

section \<open>Properties of line reading\<close>

















lemma of_char_char_of_ascii:
  "list_all (\<lambda>c. c < 128) (s :: nat list) \<Longrightarrow> map of_char (map char_of s :: char list) = s"
  by (induction s) auto














section \<open>Properties of the message decoder\<close>

text \<open>
  Claim C2 fails on the code. The line is the base64 form of
  \<open>{"_id": "a", "timestamp": 0, "topic": "t"}\<close>, a JSON object without the key
  \<open>payload\<close>. \<open>parse_message\<close> subscripts the decoded object with \<open>"payload"\<close> before it
  looks for missing keys, so the failure is a \<open>KeyError\<close>, not the \<open>ValueError\<close> that the
  check for missing keys raises (as it does for the second line, the base64 form of
  \<open>{"_id": "a", "timestamp": 0, "payload": "p"}\<close>). The \<open>KeyError\<close> passes through the
  client's \<open>parse_message\<close> and the server's \<open>parse_body\<close>, which handle only
  \<open>ValueError\<close> and \<open>JSONDecodeError\<close>.
\<close>

theorem missing_payload_key_error:
  "parse_message tm (PBytes ''eyJfaWQiOiAiYSIsICJ0aW1lc3RhbXAiOiAwLCAidG9waWMiOiAidCJ9'')
     = Inl KeyError \<and>
   parse_message tm (PBytes ''eyJfaWQiOiAiYSIsICJ0aW1lc3RhbXAiOiAwLCAicGF5bG9hZCI6ICJwIn0='')
     = Inl ValueError \<and>
   client_parse_message tm
       ([CHR 0x0D, CHR 0x0A] @ ''eyJfaWQiOiAiYSIsICJ0aW1lc3RhbXAiOiAwLCAidG9waWMiOiAidCJ9''
        @ [CHR 0x0D, CHR 0x0A])
     = ([], Inl KeyError) \<and>
   parse_body demo_server_env
       (demo_handler ([CHR 0x0D, CHR 0x0A]
          @ ''eyJfaWQiOiAiYSIsICJ0aW1lc3RhbXAiOiAwLCAidG9waWMiOiAidCJ9'' @ [CHR 0x0D, CHR 0x0A]))
     = (demo_handler [], Inl KeyError)"
  by (simp add: server_eval codec_eval client_eval)

end
